theory Spec2Isabelle
  imports Complex_Main "HOL-Library.Word"
begin

section \<open>Python processes: exceptions, state, external calls\<close>

text \<open>
  The notebooks and the two entry scripts they write are straight-line Python with a few
  loops and \<^verbatim>\<open>try/except\<close> statements around calls into libraries that are not part of
  the repository (the platform SDK, numpy, pandas, scikit-learn, joblib, json, os).
  A statement is modelled as a function from the state of the Python process to an
  outcome (an exception or a value) and the state it leaves: an exception does not undo
  what ran before it. What a library call answers is a parameter of the model; that the
  call was made is recorded in the state, in the order of the source.
\<close>

datatype pyexn =
    ComputeTargetException string
  | NameError string
  | IndexError string
  | OverflowError string
  | Exception string
  | KeyboardInterrupt

text \<open>\<^verbatim>\<open>except Exception\<close> catches every exception but those that only derive from
  \<^verbatim>\<open>BaseException\<close>; \<^verbatim>\<open>except ComputeTargetException\<close> catches that class only.\<close>

fun except_Exception :: "pyexn \<Rightarrow> bool" where
  "except_Exception KeyboardInterrupt = False"
| "except_Exception _ = True"

fun except_ComputeTargetException :: "pyexn \<Rightarrow> bool" where
  "except_ComputeTargetException (ComputeTargetException _) = True"
| "except_ComputeTargetException _ = False"

text \<open>\<^verbatim>\<open>str(ex)\<close>, as \<^verbatim>\<open>print(ex)\<close> shows it. An exception that a library raised carries
  the whole text that \<^verbatim>\<open>str\<close> gives for it, of one line or of several; a \<^verbatim>\<open>NameError\<close> carries
  the name that is not bound, and its text is built from the name as Python builds it.\<close>

fun str_exn :: "pyexn \<Rightarrow> string" where
  "str_exn (ComputeTargetException m) = m"
| "str_exn (NameError name) = ''name '' @ [CHR 0x27] @ name @ [CHR 0x27] @ '' is not defined''"
| "str_exn (IndexError m) = m"
| "str_exn (OverflowError m) = m"
| "str_exn (Exception m) = m"
| "str_exn KeyboardInterrupt = []"

type_synonym ('s, 'a) py = "'s \<Rightarrow> (pyexn + 'a) \<times> 's"

definition py_return :: "'a \<Rightarrow> ('s, 'a) py" where
  "py_return x = (\<lambda>s. (Inr x, s))"

definition py_bind :: "('s, 'a) py \<Rightarrow> ('a \<Rightarrow> ('s, 'b) py) \<Rightarrow> ('s, 'b) py" where
  "py_bind m f = (\<lambda>s. case m s of (Inl e, s') \<Rightarrow> (Inl e, s') | (Inr x, s') \<Rightarrow> f x s')"

text \<open>\<^verbatim>\<open>try: body except C: handler\<close>: the handler runs in the state the body left.\<close>

definition py_try :: "('s, 'a) py \<Rightarrow> (pyexn \<Rightarrow> bool) \<Rightarrow> (pyexn \<Rightarrow> ('s, 'a) py) \<Rightarrow> ('s, 'a) py" where
  "py_try body catches handler =
     (\<lambda>s. case body s of
        (Inl e, s') \<Rightarrow> if catches e then handler e s' else (Inl e, s')
      | (Inr x, s') \<Rightarrow> (Inr x, s'))"

text \<open>Reading a variable that an earlier cell or \<^verbatim>\<open>init\<close> should have bound.\<close>

definition py_var :: "string \<Rightarrow> ('s \<Rightarrow> 'a option) \<Rightarrow> ('s, 'a) py" where
  "py_var name field =
     (\<lambda>s. case field s of None \<Rightarrow> (Inl (NameError name), s) | Some v \<Rightarrow> (Inr v, s))"

text \<open>A pure library function that may raise.\<close>

definition py_lift :: "pyexn + 'a \<Rightarrow> ('s, 'a) py" where
  "py_lift r = (\<lambda>s. (r, s))"

text \<open>The state every process has: the external calls it made so far, and what it printed.\<close>

record 'c proc =
  calls :: "'c list"
  stdout :: "string list"

definition extern :: "'c \<Rightarrow> pyexn + 'r \<Rightarrow> (('c, 'z) proc_scheme, 'r) py" where
  "extern c r = (\<lambda>s. (r, s\<lparr>calls := calls s @ [c]\<rparr>))"

definition py_print :: "string \<Rightarrow> (('c, 'z) proc_scheme, unit) py" where
  "py_print line = (\<lambda>s. (Inr (), s\<lparr>stdout := stdout s @ [line]\<rparr>))"

text \<open>Python list indexing \<^verbatim>\<open>xs[i]\<close>: a negative index counts from the end.\<close>

definition py_index :: "'a list \<Rightarrow> int \<Rightarrow> pyexn + 'a" where
  "py_index xs i =
     (let n = int (length xs); j = (if i < 0 then i + n else i)
      in if 0 \<le> j \<and> j < n then Inr (xs ! nat j) else Inl (IndexError ''list index out of range''))"

section \<open>The batch scoring script \<^verbatim>\<open>batch_diabetes.py\<close>\<close>

text \<open>
  \<^verbatim>\<open>
  def init():
      global model
      model_path = Model.get_model_path('diabetes_model')
      model = joblib.load(model_path)

  def run(mini_batch):
      resultList = []
      for f in mini_batch:
          data = np.genfromtxt(f, delimiter=',')
          prediction = model.predict(data.reshape(1, -1))
          resultList.append("{}: {}".format(os.path.basename(f), prediction[0]))
      return resultList
  \<close>
  The libraries are parameters: \<open>'m\<close> is the loaded model, \<open>'a\<close> an array, \<open>'p\<close> a
  predicted label. The process of an entry script holds the global \<^verbatim>\<open>model\<close>, which
  \<^verbatim>\<open>init\<close> binds.
\<close>

record ('m, 'a, 'p) batch_libs =
  Model_get_model_path :: "string \<Rightarrow> pyexn + string"
  joblib_load :: "string \<Rightarrow> pyexn + 'm"
  np_genfromtxt :: "string \<Rightarrow> pyexn + 'a"
  ndarray_reshape :: "'a \<Rightarrow> pyexn + 'a"
  model_predict :: "'m \<Rightarrow> 'a \<Rightarrow> pyexn + 'p list"
  os_path_basename :: "string \<Rightarrow> string"
  str_label :: "'p \<Rightarrow> string"

datatype 'a script_call =
    Call_get_model_path string
  | Call_joblib_load string
  | Call_genfromtxt string
  | Call_predict 'a

record ('m, 'a) script_proc = "'a script_call proc" +
  model :: "'m option"

definition batch_diabetes_init ::
  "('m, 'a, 'p) batch_libs \<Rightarrow> (('m, 'a) script_proc, unit) py" where
  "batch_diabetes_init L =
     py_bind (extern (Call_get_model_path ''diabetes_model'')
                (Model_get_model_path L ''diabetes_model'')) (\<lambda>model_path.
     py_bind (extern (Call_joblib_load model_path) (joblib_load L model_path)) (\<lambda>m.
     (\<lambda>s. (Inr (), s\<lparr>model := Some m\<rparr>))))"

text \<open>\<^verbatim>\<open>prediction[0]\<close> on the array that \<^verbatim>\<open>predict\<close> returned.\<close>

definition first_label :: "'p list \<Rightarrow> pyexn + 'p" where
  "first_label prediction =
     (case prediction of
        [] \<Rightarrow> Inl (IndexError ''index 0 is out of bounds for axis 0 with size 0'')
      | p # _ \<Rightarrow> Inr p)"

text \<open>One iteration of the loop body, for the file \<open>f\<close>: the line appended to
  \<^verbatim>\<open>resultList\<close>.\<close>

definition batch_score_file ::
  "('m, 'a, 'p) batch_libs \<Rightarrow> string \<Rightarrow> (('m, 'a) script_proc, string) py" where
  "batch_score_file L f =
     py_bind (extern (Call_genfromtxt f) (np_genfromtxt L f)) (\<lambda>data.
     py_bind (py_var ''model'' model) (\<lambda>m.
     py_bind (py_lift (ndarray_reshape L data)) (\<lambda>row.
     py_bind (extern (Call_predict row) (model_predict L m row)) (\<lambda>prediction.
     py_bind (py_lift (first_label prediction)) (\<lambda>p.
     py_return (os_path_basename L f @ '': '' @ str_label L p))))))"

fun batch_loop ::
  "('m, 'a, 'p) batch_libs \<Rightarrow> string list \<Rightarrow> string list \<Rightarrow> (('m, 'a) script_proc, string list) py" where
  "batch_loop L [] resultList = py_return resultList"
| "batch_loop L (f # fs) resultList =
     py_bind (batch_score_file L f) (\<lambda>line. batch_loop L fs (resultList @ [line]))"

definition batch_diabetes_run ::
  "('m, 'a, 'p) batch_libs \<Rightarrow> string list \<Rightarrow> (('m, 'a) script_proc, string list) py" where
  "batch_diabetes_run L mini_batch = batch_loop L mini_batch []"

text \<open>The number of \<^verbatim>\<open>model.predict\<close> calls and of \<^verbatim>\<open>joblib.load\<close> calls in a list of
  calls.\<close>

fun predict_calls :: "'a script_call list \<Rightarrow> nat" where
  "predict_calls [] = 0"
| "predict_calls (Call_predict _ # cs) = Suc (predict_calls cs)"
| "predict_calls (_ # cs) = predict_calls cs"

fun load_calls :: "'a script_call list \<Rightarrow> nat" where
  "load_calls [] = 0"
| "load_calls (Call_joblib_load _ # cs) = Suc (load_calls cs)"
| "load_calls (_ # cs) = load_calls cs"

section \<open>The notebooks' cells that call the platform SDK\<close>

text \<open>
  A cell runs in the notebook's kernel: the variables earlier cells bound, what was
  printed, and the SDK calls made so far. \<open>'h\<close> is a handle to an object the SDK returned
  (a workspace, a dataset, a cluster, a configuration). What the platform answers to a
  call, a handle or an exception, is the parameter \<open>P\<close>. Import statements are left out.
\<close>

record 'h register_args =
  reg_workspace :: 'h
  reg_name :: string
  reg_description :: string
  reg_tags :: "(string \<times> string) list option"
  reg_create_new_version :: bool

record 'h pipeline_data_args =
  pd_name :: string
  pd_datastore :: 'h
  pd_output_path_on_compute :: string

record 'h parallel_run_config_args =
  prc_source_directory :: string
  prc_entry_script :: string
  prc_mini_batch_size :: string
  prc_error_threshold :: int
  prc_output_action :: string
  prc_environment :: 'h
  prc_compute_target :: 'h
  prc_node_count :: int

record 'h parallel_run_step_args =
  prs_name :: string
  prs_parallel_run_config :: 'h
  prs_inputs :: "'h list"
  prs_output :: 'h
  prs_arguments :: "string list"
  prs_allow_reuse :: bool

record upload_files_args =
  up_files :: "string list"
  up_target_path :: string
  up_overwrite :: bool
  up_show_progress :: bool

record 'h drift_args =
  ddd_workspace :: 'h
  ddd_name :: string
  ddd_baseline :: 'h
  ddd_target :: 'h
  ddd_compute_target :: string
  ddd_frequency :: string
  ddd_feature_list :: "string list"
  ddd_drift_threshold :: rat
  ddd_latency :: int

datatype 'h sdk_call =
    ComputeTarget 'h string
  | Workspace_update_image_build_compute 'h string
  | Dataset_register 'h "'h register_args"
  | Workspace_get_default_datastore 'h
  | PipelineData "'h pipeline_data_args"
  | ParallelRunConfig "'h parallel_run_config_args"
  | Dataset_as_named_input 'h string
  | ParallelRunStep "'h parallel_run_step_args"
  | DataDriftDetector_create_from_datasets "'h drift_args"
  | Datastore_upload_files 'h upload_files_args
  | Dataset_Tabular_from_delimited_files 'h string "string option"
  | Dataset_with_timestamp_columns 'h string
  | DataDriftDetector_backfill 'h int int
  | RunDetails_show 'h
  | Run_wait_for_completion 'h

type_synonym 'h platform = "'h sdk_call \<Rightarrow> pyexn + 'h"

text \<open>The variables of the four notebooks that the cells below read or write; \<open>None\<close> is a
  name not bound yet.\<close>

record 'h kernel = "'h sdk_call proc" +
  ws :: "'h option"
  cluster_name :: "string option"
  inference_cluster :: "'h option"
  training_cluster :: "'h option"
  batch_data_set :: "'h option"
  data_set :: "'h option"
  tab_data_set :: "'h option"
  baseline_data_set :: "'h option"
  target_data_set :: "'h option"
  default_ds :: "'h option"
  output_dir :: "'h option"
  experiment_folder :: "string option"
  batch_env :: "'h option"
  parallel_run_config :: "'h option"
  parallelrun_step :: "'h option"
  features :: "string list option"
  monitor :: "'h option"
  backfill :: "'h option"

definition sdk :: "'h platform \<Rightarrow> 'h sdk_call \<Rightarrow> ('h kernel, 'h) py" where
  "sdk P c = extern c (P c)"

definition assign :: "('s \<Rightarrow> 's) \<Rightarrow> ('s, unit) py" where
  "assign upd = (\<lambda>s. (Inr (), upd s))"

subsection \<open>Assigning the compute target\<close>

text \<open>
  Batch inferencing notebook:
  \<^verbatim>\<open>
  cluster_name = "acaml-****"
  try:
      # Check for existing compute target
      inference_cluster = ComputeTarget(workspace=ws, name=cluster_name)
      ws.update(image_build_compute=cluster_name)
      print('Found existing cluster and using it.')
  except ComputeTargetException:
      # If it doesn't already exist, say so
      print('There is no existing cluster by that name.')
  \<close>
\<close>

definition batch_compute_cell :: "'h platform \<Rightarrow> ('h kernel, unit) py" where
  "batch_compute_cell P =
     py_bind (assign (\<lambda>k. k\<lparr>cluster_name := Some ''acaml-****''\<rparr>)) (\<lambda>_.
     py_try
       (py_bind (py_var ''ws'' ws) (\<lambda>w.
        py_bind (py_var ''cluster_name'' cluster_name) (\<lambda>n.
        py_bind (sdk P (ComputeTarget w n)) (\<lambda>c.
        py_bind (assign (\<lambda>k. k\<lparr>inference_cluster := Some c\<rparr>)) (\<lambda>_.
        py_bind (py_var ''ws'' ws) (\<lambda>w'.
        py_bind (py_var ''cluster_name'' cluster_name) (\<lambda>n'.
        py_bind (sdk P (Workspace_update_image_build_compute w' n')) (\<lambda>_.
        py_print ''Found existing cluster and using it.''))))))))
       except_ComputeTargetException
       (\<lambda>_. py_print ''There is no existing cluster by that name.''))"

text \<open>
  Hyperparameter tuning notebook: the same statement for \<^verbatim>\<open>training_cluster\<close> and
  \<^verbatim>\<open>cluster_name = "ac-aml-cluster"\<close>.
\<close>

definition hyperdrive_compute_cell :: "'h platform \<Rightarrow> ('h kernel, unit) py" where
  "hyperdrive_compute_cell P =
     py_bind (assign (\<lambda>k. k\<lparr>cluster_name := Some ''ac-aml-cluster''\<rparr>)) (\<lambda>_.
     py_try
       (py_bind (py_var ''ws'' ws) (\<lambda>w.
        py_bind (py_var ''cluster_name'' cluster_name) (\<lambda>n.
        py_bind (sdk P (ComputeTarget w n)) (\<lambda>c.
        py_bind (assign (\<lambda>k. k\<lparr>training_cluster := Some c\<rparr>)) (\<lambda>_.
        py_bind (py_var ''ws'' ws) (\<lambda>w'.
        py_bind (py_var ''cluster_name'' cluster_name) (\<lambda>n'.
        py_bind (sdk P (Workspace_update_image_build_compute w' n')) (\<lambda>_.
        py_print ''Found existing cluster and using it.''))))))))
       except_ComputeTargetException
       (\<lambda>_. py_print ''There is no existing cluster by that name.''))"

text \<open>
  Data drift notebook:
  \<^verbatim>\<open>
  cluster_name = "ac-aml-cluster"
  try:
      # Check for existing compute target
      training_cluster = ComputeTarget(workspace=ws, name=cluster_name)
      print('Found existing cluster, use it.')
  except ComputeTargetException:
      # If it doesn't already exist, say so
      print('There is no existing cluster by that name.')
  \<close>
\<close>

definition drift_compute_cell :: "'h platform \<Rightarrow> ('h kernel, unit) py" where
  "drift_compute_cell P =
     py_bind (assign (\<lambda>k. k\<lparr>cluster_name := Some ''ac-aml-cluster''\<rparr>)) (\<lambda>_.
     py_try
       (py_bind (py_var ''ws'' ws) (\<lambda>w.
        py_bind (py_var ''cluster_name'' cluster_name) (\<lambda>n.
        py_bind (sdk P (ComputeTarget w n)) (\<lambda>c.
        py_bind (assign (\<lambda>k. k\<lparr>training_cluster := Some c\<rparr>)) (\<lambda>_.
        py_print ''Found existing cluster, use it.'')))))
       except_ComputeTargetException
       (\<lambda>_. py_print ''There is no existing cluster by that name.''))"

subsection \<open>Registering a dataset\<close>

text \<open>
  Batch inferencing notebook, in the cell that simulates the sample data:
  \<^verbatim>\<open>
  try:
      batch_data_set = batch_data_set.register(workspace=ws,
                                               name='batch-data',
                                               description='batch data',
                                               create_new_version=True)
  except Exception as ex:
      print(ex)
  \<close>
\<close>

definition batch_register_try :: "'h platform \<Rightarrow> ('h kernel, unit) py" where
  "batch_register_try P =
     py_try
       (py_bind (py_var ''batch_data_set'' batch_data_set) (\<lambda>d.
        py_bind (py_var ''ws'' ws) (\<lambda>w.
        py_bind (sdk P (Dataset_register d
                   \<lparr>reg_workspace = w, reg_name = ''batch-data'',
                    reg_description = ''batch data'', reg_tags = None,
                    reg_create_new_version = True\<rparr>)) (\<lambda>r.
        assign (\<lambda>k. k\<lparr>batch_data_set := Some r\<rparr>)))))
       except_Exception
       (\<lambda>ex. py_print (str_exn ex))"

text \<open>
  Telemetry notebook, in the cell that prepares the model:
  \<^verbatim>\<open>
  try:
      data_set = data_set.register(workspace=ws,
                                 name='diabetes dataset',
                                 description='diabetes data',
                                 tags = {'format':'CSV'},
                                 create_new_version=True)
  except Exception as ex:
      print(ex)
  \<close>
\<close>

definition telemetry_register_try :: "'h platform \<Rightarrow> ('h kernel, unit) py" where
  "telemetry_register_try P =
     py_try
       (py_bind (py_var ''data_set'' data_set) (\<lambda>d.
        py_bind (py_var ''ws'' ws) (\<lambda>w.
        py_bind (sdk P (Dataset_register d
                   \<lparr>reg_workspace = w, reg_name = ''diabetes dataset'',
                    reg_description = ''diabetes data'',
                    reg_tags = Some [(''format'', ''CSV'')],
                    reg_create_new_version = True\<rparr>)) (\<lambda>r.
        assign (\<lambda>k. k\<lparr>data_set := Some r\<rparr>)))))
       except_Exception
       (\<lambda>ex. py_print (str_exn ex))"

text \<open>
  Hyperparameter tuning notebook, in the branch taken when the dataset is not registered:
  \<^verbatim>\<open>
  try:
      tab_data_set = tab_data_set.register(workspace=ws,
                              name='diabetes dataset',
                              description='diabetes data',
                              tags = {'format':'CSV'},
                              create_new_version=True)
      print('Dataset registered.')
  except Exception as ex:
      print(ex)
  \<close>
\<close>

definition hyperdrive_register_try :: "'h platform \<Rightarrow> ('h kernel, unit) py" where
  "hyperdrive_register_try P =
     py_try
       (py_bind (py_var ''tab_data_set'' tab_data_set) (\<lambda>d.
        py_bind (py_var ''ws'' ws) (\<lambda>w.
        py_bind (sdk P (Dataset_register d
                   \<lparr>reg_workspace = w, reg_name = ''diabetes dataset'',
                    reg_description = ''diabetes data'',
                    reg_tags = Some [(''format'', ''CSV'')],
                    reg_create_new_version = True\<rparr>)) (\<lambda>r.
        py_bind (assign (\<lambda>k. k\<lparr>tab_data_set := Some r\<rparr>)) (\<lambda>_.
        py_print ''Dataset registered.'')))))
       except_Exception
       (\<lambda>ex. py_print (str_exn ex))"

subsection \<open>Configuring the parallel run step\<close>

text \<open>
  Batch inferencing notebook:
  \<^verbatim>\<open>
  default_ds = ws.get_default_datastore()
  output_dir = PipelineData(name='inferences',
                            datastore=default_ds,
                            output_path_on_compute='diabetes/results')
  parallel_run_config = ParallelRunConfig(
      source_directory=experiment_folder,
      entry_script="batch_diabetes.py",
      mini_batch_size="5",
      error_threshold=10,
      output_action="append_row",
      environment=batch_env,
      compute_target=inference_cluster,
      node_count=2)
  parallelrun_step = ParallelRunStep(
      name='batch-score-diabetes',
      parallel_run_config=parallel_run_config,
      inputs=[batch_data_set.as_named_input('diabetes_batch')],
      output=output_dir,
      arguments=[],
      allow_reuse=True
  )
  print('Steps defined')
  \<close>
  A variable the cell has just bound is read back as the value bound.
\<close>

definition batch_parallel_run_cell :: "'h platform \<Rightarrow> ('h kernel, unit) py" where
  "batch_parallel_run_cell P =
     py_bind (py_var ''ws'' ws) (\<lambda>w.
     py_bind (sdk P (Workspace_get_default_datastore w)) (\<lambda>ds.
     py_bind (assign (\<lambda>k. k\<lparr>default_ds := Some ds\<rparr>)) (\<lambda>_.
     py_bind (sdk P (PipelineData
                \<lparr>pd_name = ''inferences'', pd_datastore = ds,
                 pd_output_path_on_compute = ''diabetes/results''\<rparr>)) (\<lambda>out.
     py_bind (assign (\<lambda>k. k\<lparr>output_dir := Some out\<rparr>)) (\<lambda>_.
     py_bind (py_var ''experiment_folder'' experiment_folder) (\<lambda>folder.
     py_bind (py_var ''batch_env'' batch_env) (\<lambda>env.
     py_bind (py_var ''inference_cluster'' inference_cluster) (\<lambda>cluster.
     py_bind (sdk P (ParallelRunConfig
                \<lparr>prc_source_directory = folder, prc_entry_script = ''batch_diabetes.py'',
                 prc_mini_batch_size = ''5'', prc_error_threshold = 10,
                 prc_output_action = ''append_row'', prc_environment = env,
                 prc_compute_target = cluster, prc_node_count = 2\<rparr>)) (\<lambda>cfg.
     py_bind (assign (\<lambda>k. k\<lparr>parallel_run_config := Some cfg\<rparr>)) (\<lambda>_.
     py_bind (py_var ''batch_data_set'' batch_data_set) (\<lambda>d.
     py_bind (sdk P (Dataset_as_named_input d ''diabetes_batch'')) (\<lambda>inp.
     py_bind (sdk P (ParallelRunStep
                \<lparr>prs_name = ''batch-score-diabetes'', prs_parallel_run_config = cfg,
                 prs_inputs = [inp], prs_output = out, prs_arguments = [],
                 prs_allow_reuse = True\<rparr>)) (\<lambda>step.
     py_bind (assign (\<lambda>k. k\<lparr>parallelrun_step := Some step\<rparr>)) (\<lambda>_.
     py_print ''Steps defined''))))))))))))))"

subsection \<open>Creating the data drift monitor\<close>

text \<open>
  Data drift notebook:
  \<^verbatim>\<open>
  features = ['Pregnancies', 'Age', 'BMI']
  monitor = DataDriftDetector.create_from_datasets(ws, 'mslearn-diabates-drift',
                baseline_data_set, target_data_set,
                compute_target=cluster_name,
                frequency='Week',
                feature_list=features,
                drift_threshold=.3,
                latency=24)
  monitor
  \<close>
  The literal \<^verbatim>\<open>.3\<close> is kept as the decimal it writes. The last line displays the
  monitor and has no effect.
\<close>

definition drift_monitor_cell :: "'h platform \<Rightarrow> ('h kernel, unit) py" where
  "drift_monitor_cell P =
     py_bind (assign (\<lambda>k. k\<lparr>features := Some [''Pregnancies'', ''Age'', ''BMI'']\<rparr>)) (\<lambda>_.
     py_bind (py_var ''ws'' ws) (\<lambda>w.
     py_bind (py_var ''baseline_data_set'' baseline_data_set) (\<lambda>b.
     py_bind (py_var ''target_data_set'' target_data_set) (\<lambda>t.
     py_bind (py_var ''cluster_name'' cluster_name) (\<lambda>n.
     py_bind (py_var ''features'' features) (\<lambda>fs.
     py_bind (sdk P (DataDriftDetector_create_from_datasets
                \<lparr>ddd_workspace = w, ddd_name = ''mslearn-diabates-drift'',
                 ddd_baseline = b, ddd_target = t, ddd_compute_target = n,
                 ddd_frequency = ''Week'', ddd_feature_list = fs,
                 ddd_drift_threshold = 3 / 10, ddd_latency = 24\<rparr>)) (\<lambda>m.
     assign (\<lambda>k. k\<lparr>monitor := Some m\<rparr>))))))))"

text \<open>The calls that configure a drift monitor.\<close>

fun is_drift_configuration :: "'h sdk_call \<Rightarrow> bool" where
  "is_drift_configuration (DataDriftDetector_create_from_datasets _) = True"
| "is_drift_configuration _ = False"

subsection \<open>The target dataset and the backfill of the monitor\<close>




section \<open>The web service script \<^verbatim>\<open>score_diabetes.py\<close>\<close>

text \<open>
  \<^verbatim>\<open>
  def run(raw_data):
      data = json.loads(raw_data)['data']
      np_data = np.array(data)
      predictions = model.predict(np_data)
      log_text = 'Data:' + str(data) + ' - Predictions:' + str(predictions)
      print(log_text)
      classnames = ['not-diabetic', 'diabetic']
      predicted_classes = []
      for prediction in predictions:
          predicted_classes.append(classnames[prediction])
      return json.dumps(predicted_classes)
  \<close>
  The data of a request is its list of rows, \<open>'r\<close> being a row. The model is a
  scikit-learn classifier trained on integer labels: when \<^verbatim>\<open>predict\<close> does not raise, it
  returns one integer label for each row of the array it is given, and a label indexes the
  list as Python integers do. Whether \<^verbatim>\<open>np.array\<close> or \<^verbatim>\<open>predict\<close> raises on the rows (rows
  that are not numbers, or of the wrong length) is for the libraries to say; data that is
  not a list of rows stands as a list on which \<^verbatim>\<open>predict\<close> raises.
\<close>

record ('m, 'r) score_libs =
  json_loads_data :: "string \<Rightarrow> pyexn + 'r list"
  np_array_raises :: "'r list \<Rightarrow> pyexn option"
  predict_raises :: "'m \<Rightarrow> 'r list \<Rightarrow> pyexn option"
  predict_label :: "'m \<Rightarrow> 'r \<Rightarrow> int"
  str_data :: "'r list \<Rightarrow> string"
  str_predictions :: "int list \<Rightarrow> string"
  json_dumps :: "string list \<Rightarrow> string"

definition np_array :: "('m, 'r) score_libs \<Rightarrow> 'r list \<Rightarrow> pyexn + 'r list" where
  "np_array L data = (case np_array_raises L data of Some e \<Rightarrow> Inl e | None \<Rightarrow> Inr data)"

definition classifier_predict :: "('m, 'r) score_libs \<Rightarrow> 'm \<Rightarrow> 'r list \<Rightarrow> pyexn + int list" where
  "classifier_predict L m np_data =
     (case predict_raises L m np_data of
        Some e \<Rightarrow> Inl e
      | None \<Rightarrow> Inr (map (predict_label L m) np_data))"

definition classnames :: "string list" where
  "classnames = [''not-diabetic'', ''diabetic'']"

fun classname_loop :: "int list \<Rightarrow> string list \<Rightarrow> ('s, string list) py" where
  "classname_loop [] predicted_classes = py_return predicted_classes"
| "classname_loop (prediction # predictions) predicted_classes =
     py_bind (py_lift (py_index classnames prediction)) (\<lambda>c.
     classname_loop predictions (predicted_classes @ [c]))"

definition score_diabetes_run ::
  "('m, 'r) score_libs \<Rightarrow> string \<Rightarrow> (('m, 'r list) script_proc, string) py" where
  "score_diabetes_run L raw_data =
     py_bind (py_lift (json_loads_data L raw_data)) (\<lambda>data.
     py_bind (py_lift (np_array L data)) (\<lambda>np_data.
     py_bind (py_var ''model'' model) (\<lambda>m.
     py_bind (extern (Call_predict np_data) (classifier_predict L m np_data)) (\<lambda>predictions.
     py_bind (py_print (''Data:'' @ str_data L data @ '' - Predictions:'' @
                str_predictions L predictions)) (\<lambda>_.
     py_bind (classname_loop predictions []) (\<lambda>predicted_classes.
     py_return (json_dumps L predicted_classes)))))))"

section \<open>Generating the target data in the data drift notebook\<close>

text \<open>
  \<^verbatim>\<open>
  print('Generating simulated data...')
  data = pd.read_csv('data/diabetes2.csv')
  weeknos = reversed(range(6))
  file_paths = []
  for weekno in weeknos:
      data_date = dt.date.today() - dt.timedelta(weeks=weekno)
      data['Pregnancies'] = data['Pregnancies'] + 1
      data['Age'] = round(data['Age'] * 1.2).astype(int)
      data['BMI'] = data['BMI'] * 1.1
      file_path = 'data/diabetes_{}.csv'.format(data_date.strftime("%Y-%m-%d"))
      data.to_csv(file_path)
      file_paths.append(file_path)
  \<close>
  A dataframe is its three columns that the loop updates and the rest, which it leaves
  alone. The integer columns are pandas \<^verbatim>\<open>int64\<close> columns: 64-bit words, read as two's
  complement, whose addition wraps around without an exception. A date is its day number
  (\<^verbatim>\<open>toordinal\<close>, day 1 being 0001-01-01, the first date Python has), so a week is 7,
  and a date before day 1 is the \<^verbatim>\<open>OverflowError\<close> of the subtraction. The clock is read in
  every iteration: \<open>date_today L n\<close> is the day it gives the \<open>n\<close>-th time the process asks. The
  two floating-point updates and the formatting of a date are parameters. A data file
  without one of the three columns is outside the model.
\<close>

record ('f, 'o) dataframe =
  Pregnancies :: "64 word list"
  Age :: "64 word list"
  BMI :: "'f list"
  other_columns :: 'o

datatype ('f, 'o) pandas_call =
    Call_read_csv string
  | Call_to_csv string "('f, 'o) dataframe"


record ('f, 'o) datagen_proc = "('f, 'o) pandas_call proc" +
  data :: "('f, 'o) dataframe option"
  file_paths :: "string list"
  today_reads :: nat










section \<open>A concrete run of the batch scoring script\<close>

text \<open>Libraries for evaluating the script on two files: \<^verbatim>\<open>os.path.basename\<close> as
  \<^verbatim>\<open>posixpath\<close> defines it, a directory with two readable files, and a model that labels a
  row by its first feature.\<close>

definition posix_basename :: "string \<Rightarrow> string" where
  "posix_basename p = rev (takeWhile (\<lambda>c. c \<noteq> CHR ''/'') (rev p))"

definition demo_libs :: "(unit, int list, int) batch_libs" where
  "demo_libs = \<lparr>
     Model_get_model_path = (\<lambda>name. Inr (''azureml-models/'' @ name)),
     joblib_load = (\<lambda>path. Inr ()),
     np_genfromtxt = (\<lambda>f. if f = ''in/1.csv'' then Inr [2, 180]
                          else if f = ''in/2.csv'' then Inr [0, 148]
                          else Inl (Exception ''not found'')),
     ndarray_reshape = Inr,
     model_predict = (\<lambda>m row. case row of [] \<Rightarrow> Inl (Exception ''bad input shape'')
                                 | x # _ \<Rightarrow> Inr [if 1 < x then 1 else 0]),
     os_path_basename = posix_basename,
     str_label = (\<lambda>p. if p = 0 then ''0'' else ''1'') \<rparr>"

text \<open>The same libraries with three more files: one whose array cannot be reshaped, one that
  the model refuses, and one for which it predicts nothing.\<close>

definition demo_faulty_libs :: "(unit, int list, int) batch_libs" where
  "demo_faulty_libs = \<lparr>
     Model_get_model_path = (\<lambda>name. Inr (''azureml-models/'' @ name)),
     joblib_load = (\<lambda>path. Inr ()),
     np_genfromtxt = (\<lambda>f. if f = ''in/1.csv'' then Inr [2, 180]
                          else if f = ''in/2.csv'' then Inr [0, 148]
                          else if f = ''in/ragged.csv'' then Inr [7]
                          else if f = ''in/empty.csv'' then Inr []
                          else if f = ''in/nothing.csv'' then Inr [9]
                          else Inl (Exception ''not found'')),
     ndarray_reshape = (\<lambda>a. if a = [7] then Inl (Exception ''cannot reshape'') else Inr a),
     model_predict = (\<lambda>m row. case row of [] \<Rightarrow> Inl (Exception ''bad input shape'')
                                 | x # _ \<Rightarrow> if x = 9 then Inr []
                                            else Inr [if 1 < x then 1 else 0]),
     os_path_basename = posix_basename,
     str_label = (\<lambda>p. if p = 0 then ''0'' else ''1'') \<rparr>"

definition demo_proc :: "(unit, int list) script_proc" where
  "demo_proc = \<lparr> calls = [], stdout = [], model = Some () \<rparr>"

definition demo_data :: "string \<Rightarrow> int list" where
  "demo_data f = (if f = ''in/1.csv'' then [2, 180] else [0, 148])"

definition demo_label :: "string \<Rightarrow> int" where
  "demo_label f = (if f = ''in/1.csv'' then 1 else 0)"

section \<open>A concrete platform and kernel\<close>

text \<open>A platform that answers every call with a handle, one on which the cluster does not
  exist and registration fails, and a kernel in which the earlier cells of each notebook
  have run.\<close>

definition demo_platform_ok :: "string platform" where
  "demo_platform_ok c = (case c of ComputeTarget w n \<Rightarrow> Inr n | _ \<Rightarrow> Inr ''object'')"

definition demo_platform_failing :: "string platform" where
  "demo_platform_failing c =
     (case c of
        ComputeTarget w n \<Rightarrow> Inl (ComputeTargetException ''ComputeTargetNotFound'')
      | Dataset_register d a \<Rightarrow> Inl (Exception ''registration failed'')
      | _ \<Rightarrow> Inr ''object'')"

definition demo_kernel :: "string kernel" where
  "demo_kernel = \<lparr> calls = [], stdout = [],
     ws = Some ''ws'', cluster_name = None, inference_cluster = None,
     training_cluster = None, batch_data_set = Some ''batch_data_set'',
     data_set = Some ''data_set'', tab_data_set = Some ''tab_data_set'',
     baseline_data_set = Some ''baseline_data_set'',
     target_data_set = Some ''target_data_set'', default_ds = None, output_dir = None,
     experiment_folder = Some ''batch_pipeline'', batch_env = Some ''batch_env'',
     parallel_run_config = None, parallelrun_step = None, features = None,
     monitor = None, backfill = None \<rparr>"

text \<open>The calls that only look a cluster up.\<close>

fun is_lookup :: "'h sdk_call \<Rightarrow> bool" where
  "is_lookup (ComputeTarget _ _) = True"
| "is_lookup _ = False"

section \<open>Concrete libraries for the other two scripts\<close>

text \<open>For the web service: a request is a list of rows separated by semicolons, it does not
  parse when it is empty, and the classifier labels a row \<open>0\<close>, \<open>1\<close>, \<open>2\<close> or, for any
  other row, \<open>- 1\<close>.\<close>

fun split_rows :: "string \<Rightarrow> string \<Rightarrow> string list" where
  "split_rows [] row = [row]"
| "split_rows (c # cs) row =
     (if c = CHR '';'' then row # split_rows cs [] else split_rows cs (row @ [c]))"

definition demo_score_libs :: "(unit, string) score_libs" where
  "demo_score_libs = \<lparr>
     json_loads_data = (\<lambda>raw_data. if raw_data = [] then Inl (Exception ''JSONDecodeError'')
                                    else Inr (split_rows raw_data [])),
     np_array_raises = (\<lambda>rows. None),
     predict_raises = (\<lambda>m rows. None),
     predict_label = (\<lambda>m row. if row = ''healthy'' then 0 else if row = ''ill'' then 1
                              else if row = ''severe'' then 2 else - 1),
     str_data = concat,
     str_predictions = map (\<lambda>p. if p = 0 then CHR ''0'' else if p = 1 then CHR ''1'' else CHR ''?''),
     json_dumps = concat \<rparr>"

definition demo_score_proc :: "(unit, string list) script_proc" where
  "demo_score_proc = \<lparr> calls = [], stdout = [], model = Some () \<rparr>"









section \<open>Lemmas on the batch scoring script\<close>

lemma predict_calls_append: "predict_calls (cs @ ds) = predict_calls cs + predict_calls ds"
  by (induction cs rule: predict_calls.induct) simp_all

lemma load_calls_append: "load_calls (cs @ ds) = load_calls cs + load_calls ds"
  by (induction cs rule: load_calls.induct) simp_all

lemma batch_score_file_ok:
  assumes "model s = Some m"
    and "np_genfromtxt L f = Inr d"
    and "ndarray_reshape L d = Inr r"
    and "model_predict L m r = Inr (p # ps)"
  shows "batch_score_file L f s =
    (Inr (os_path_basename L f @ '': '' @ str_label L p),
     s\<lparr>calls := calls s @ [Call_genfromtxt f, Call_predict r]\<rparr>)"
  using assms
  by (simp add: batch_score_file_def py_bind_def extern_def py_var_def py_lift_def
      py_return_def first_label_def)

lemma batch_loop_ok:
  assumes "\<And>f. f \<in> set fs \<Longrightarrow> np_genfromtxt L f = Inr (array_of f)"
    and "\<And>f. f \<in> set fs \<Longrightarrow> ndarray_reshape L (array_of f) = Inr (row f)"
    and "\<And>f. f \<in> set fs \<Longrightarrow> model_predict L m (row f) = Inr (label f # others f)"
    and "model s = Some m"
  shows "batch_loop L fs acc s =
    (Inr (acc @ map (\<lambda>f. os_path_basename L f @ '': '' @ str_label L (label f)) fs),
     s\<lparr>calls := calls s @ concat (map (\<lambda>f. [Call_genfromtxt f, Call_predict (row f)]) fs)\<rparr>)"
  using assms
proof (induction fs arbitrary: acc s)
  case Nil
  then show ?case by (simp add: py_return_def)
next
  case (Cons f fs)
  have step: "batch_score_file L f s =
    (Inr (os_path_basename L f @ '': '' @ str_label L (label f)),
     s\<lparr>calls := calls s @ [Call_genfromtxt f, Call_predict (row f)]\<rparr>)"
  proof -
    have a: "np_genfromtxt L f = Inr (array_of f)" by (rule Cons.prems(1)) simp
    have b: "ndarray_reshape L (array_of f) = Inr (row f)" by (rule Cons.prems(2)) simp
    have c: "model_predict L m (row f) = Inr (label f # others f)" by (rule Cons.prems(3)) simp
    show ?thesis by (rule batch_score_file_ok [OF Cons.prems(4) a b c])
  qed
  have rest: "batch_loop L fs acc' s' =
    (Inr (acc' @ map (\<lambda>f. os_path_basename L f @ '': '' @ str_label L (label f)) fs),
     s'\<lparr>calls := calls s' @ concat (map (\<lambda>f. [Call_genfromtxt f, Call_predict (row f)]) fs)\<rparr>)"
    if "model s' = Some m" for acc' s'
  proof (rule Cons.IH)
    show "np_genfromtxt L g = Inr (array_of g)" if "g \<in> set fs" for g
      by (rule Cons.prems(1)) (simp add: that)
    show "ndarray_reshape L (array_of g) = Inr (row g)" if "g \<in> set fs" for g
      by (rule Cons.prems(2)) (simp add: that)
    show "model_predict L m (row g) = Inr (label g # others g)" if "g \<in> set fs" for g
      by (rule Cons.prems(3)) (simp add: that)
    show "model s' = Some m" by (rule that)
  qed
  show ?case
    by (simp add: py_bind_def step rest Cons.prems)
qed

lemma predict_calls_per_file:
  "predict_calls (concat (map (\<lambda>f. [Call_genfromtxt f, Call_predict (row f)]) fs)) = length fs"
  by (induction fs) simp_all

lemma batch_diabetes_run_calls:
  assumes "model s = Some m"
    and "\<forall>f\<in>set mini_batch.
           np_genfromtxt L f = Inr (array_of f) \<and>
           ndarray_reshape L (array_of f) = Inr (row f) \<and>
           model_predict L m (row f) = Inr (label f # others f)"
  shows "calls (snd (batch_diabetes_run L mini_batch s)) =
    calls s @ concat (map (\<lambda>f. [Call_genfromtxt f, Call_predict (row f)]) mini_batch)"
  unfolding batch_diabetes_run_def
  using batch_loop_ok [of mini_batch L array_of row m label others s "[]"] assms
  by simp

lemma batch_diabetes_init_calls:
  assumes "Model_get_model_path L ''diabetes_model'' = Inr path"
  shows "calls (snd (batch_diabetes_init L s)) =
    calls s @ [Call_get_model_path ''diabetes_model'', Call_joblib_load path]"
  using assms
  by (simp add: batch_diabetes_init_def py_bind_def extern_def split: sum.splits)

lemma batch_score_file_read_raises:
  assumes "np_genfromtxt L f = Inl e"
  shows "batch_score_file L f s = (Inl e, s\<lparr>calls := calls s @ [Call_genfromtxt f]\<rparr>)"
  using assms by (simp add: batch_score_file_def py_bind_def extern_def)

lemma batch_score_file_no_model:
  assumes "np_genfromtxt L f = Inr d" and "model s = None"
  shows "batch_score_file L f s =
    (Inl (NameError ''model''), s\<lparr>calls := calls s @ [Call_genfromtxt f]\<rparr>)"
  using assms by (simp add: batch_score_file_def py_bind_def extern_def py_var_def)

lemma batch_score_file_reshape_raises:
  assumes "model s = Some m" and "np_genfromtxt L f = Inr d" and "ndarray_reshape L d = Inl e"
  shows "batch_score_file L f s = (Inl e, s\<lparr>calls := calls s @ [Call_genfromtxt f]\<rparr>)"
  using assms by (simp add: batch_score_file_def py_bind_def extern_def py_var_def py_lift_def)

lemma batch_score_file_predict_raises:
  assumes "model s = Some m" and "np_genfromtxt L f = Inr d" and "ndarray_reshape L d = Inr r"
    and "model_predict L m r = Inl e"
  shows "batch_score_file L f s =
    (Inl e, s\<lparr>calls := calls s @ [Call_genfromtxt f, Call_predict r]\<rparr>)"
  using assms by (simp add: batch_score_file_def py_bind_def extern_def py_var_def py_lift_def)

lemma batch_score_file_no_label:
  assumes "model s = Some m" and "np_genfromtxt L f = Inr d" and "ndarray_reshape L d = Inr r"
    and "model_predict L m r = Inr []"
  shows "batch_score_file L f s =
    (Inl (IndexError ''index 0 is out of bounds for axis 0 with size 0''),
     s\<lparr>calls := calls s @ [Call_genfromtxt f, Call_predict r]\<rparr>)"
  using assms
  by (simp add: batch_score_file_def py_bind_def extern_def py_var_def py_lift_def
      first_label_def)

lemma batch_loop_append:
  "batch_loop L (xs @ ys) acc s =
     (case batch_loop L xs acc s of
        (Inl e, s') \<Rightarrow> (Inl e, s')
      | (Inr acc', s') \<Rightarrow> batch_loop L ys acc' s')"
proof (induction xs arbitrary: acc s)
  case Nil
  then show ?case by (simp add: py_return_def)
next
  case (Cons x xs)
  show ?case
    by (cases "batch_score_file L x s") (simp add: py_bind_def Cons.IH split: sum.splits)
qed

text \<open>After the files \<open>good\<close>, which all score, the loop stops at a file whose iteration
  raises, in the state that iteration left.\<close>

lemma batch_diabetes_run_stops:
  assumes "model s = Some m"
    and "\<forall>f\<in>set good.
           np_genfromtxt L f = Inr (array_of f) \<and>
           ndarray_reshape L (array_of f) = Inr (row f) \<and>
           model_predict L m (row f) = Inr (label f # others f)"
    and "batch_score_file L f
           (s\<lparr>calls := calls s @
               concat (map (\<lambda>f. [Call_genfromtxt f, Call_predict (row f)]) good)\<rparr>) = (Inl e, s')"
  shows "batch_diabetes_run L (good @ f # rest) s = (Inl e, s')"
proof -
  have good: "batch_loop L good [] s =
      (Inr ([] @ map (\<lambda>f. os_path_basename L f @ '': '' @ str_label L (label f)) good),
       s\<lparr>calls := calls s @
           concat (map (\<lambda>f. [Call_genfromtxt f, Call_predict (row f)]) good)\<rparr>)"
    using batch_loop_ok [of good L array_of row m label others s "[]"] assms(1) assms(2)
    by simp
  show ?thesis
    unfolding batch_diabetes_run_def
    by (simp add: batch_loop_append good py_bind_def assms(3))
qed

section \<open>Lemmas on the notebooks' cells\<close>

lemmas py_defs = py_bind_def py_return_def py_try_def py_var_def py_lift_def
  extern_def py_print_def sdk_def assign_def

lemma batch_compute_cell_outcome:
  assumes "ws k = Some w"
  shows "fst (batch_compute_cell P k) =
    (case P (ComputeTarget w ''acaml-****'') of
       Inl e \<Rightarrow> if except_ComputeTargetException e then Inr () else Inl e
     | Inr c \<Rightarrow>
        (case P (Workspace_update_image_build_compute w ''acaml-****'') of
           Inl e \<Rightarrow> if except_ComputeTargetException e then Inr () else Inl e
         | Inr _ \<Rightarrow> Inr ()))"
  using assms
  by (simp add: batch_compute_cell_def py_defs split: sum.splits)

lemma hyperdrive_compute_cell_outcome:
  assumes "ws k = Some w"
  shows "fst (hyperdrive_compute_cell P k) =
    (case P (ComputeTarget w ''ac-aml-cluster'') of
       Inl e \<Rightarrow> if except_ComputeTargetException e then Inr () else Inl e
     | Inr c \<Rightarrow>
        (case P (Workspace_update_image_build_compute w ''ac-aml-cluster'') of
           Inl e \<Rightarrow> if except_ComputeTargetException e then Inr () else Inl e
         | Inr _ \<Rightarrow> Inr ()))"
  using assms
  by (simp add: hyperdrive_compute_cell_def py_defs split: sum.splits)

lemma drift_compute_cell_outcome:
  assumes "ws k = Some w"
  shows "fst (drift_compute_cell P k) =
    (case P (ComputeTarget w ''ac-aml-cluster'') of
       Inl e \<Rightarrow> if except_ComputeTargetException e then Inr () else Inl e
     | Inr c \<Rightarrow> Inr ())"
  using assms
  by (simp add: drift_compute_cell_def py_defs split: sum.splits)

lemma batch_register_try_outcome:
  assumes "ws k = Some w" and "batch_data_set k = Some d"
  shows "fst (batch_register_try P k) =
    (case P (Dataset_register d
               \<lparr>reg_workspace = w, reg_name = ''batch-data'',
                reg_description = ''batch data'', reg_tags = None,
                reg_create_new_version = True\<rparr>) of
       Inl e \<Rightarrow> if except_Exception e then Inr () else Inl e
     | Inr r \<Rightarrow> Inr ())"
  using assms
  by (simp add: batch_register_try_def py_defs split: sum.splits)

lemma telemetry_register_try_outcome:
  assumes "ws k = Some w" and "data_set k = Some d"
  shows "fst (telemetry_register_try P k) =
    (case P (Dataset_register d
               \<lparr>reg_workspace = w, reg_name = ''diabetes dataset'',
                reg_description = ''diabetes data'',
                reg_tags = Some [(''format'', ''CSV'')],
                reg_create_new_version = True\<rparr>) of
       Inl e \<Rightarrow> if except_Exception e then Inr () else Inl e
     | Inr r \<Rightarrow> Inr ())"
  using assms
  by (simp add: telemetry_register_try_def py_defs split: sum.splits)

lemma hyperdrive_register_try_outcome:
  assumes "ws k = Some w" and "tab_data_set k = Some d"
  shows "fst (hyperdrive_register_try P k) =
    (case P (Dataset_register d
               \<lparr>reg_workspace = w, reg_name = ''diabetes dataset'',
                reg_description = ''diabetes data'',
                reg_tags = Some [(''format'', ''CSV'')],
                reg_create_new_version = True\<rparr>) of
       Inl e \<Rightarrow> if except_Exception e then Inr () else Inl e
     | Inr r \<Rightarrow> Inr ())"
  using assms
  by (simp add: hyperdrive_register_try_def py_defs split: sum.splits)

lemma drift_compute_cell_state:
  assumes "ws k = Some w"
  shows "snd (drift_compute_cell P k) =
    (case P (ComputeTarget w ''ac-aml-cluster'') of
       Inr c \<Rightarrow> k\<lparr>calls := calls k @ [ComputeTarget w ''ac-aml-cluster''],
                 stdout := stdout k @ [''Found existing cluster, use it.''],
                 cluster_name := Some ''ac-aml-cluster'', training_cluster := Some c\<rparr>
     | Inl e \<Rightarrow> k\<lparr>calls := calls k @ [ComputeTarget w ''ac-aml-cluster''],
                 stdout := stdout k @
                   (if except_ComputeTargetException e
                    then [''There is no existing cluster by that name.''] else []),
                 cluster_name := Some ''ac-aml-cluster''\<rparr>)"
  using assms
  by (simp add: drift_compute_cell_def py_defs split: sum.splits)

lemma batch_compute_cell_calls:
  assumes "ws k = Some w"
  shows "calls (snd (batch_compute_cell P k)) =
    calls k @ ComputeTarget w ''acaml-****'' #
      (case P (ComputeTarget w ''acaml-****'') of
         Inr c \<Rightarrow> [Workspace_update_image_build_compute w ''acaml-****'']
       | Inl e \<Rightarrow> [])"
  using assms
  by (simp add: batch_compute_cell_def py_defs split: sum.splits)

lemma hyperdrive_compute_cell_calls:
  assumes "ws k = Some w"
  shows "calls (snd (hyperdrive_compute_cell P k)) =
    calls k @ ComputeTarget w ''ac-aml-cluster'' #
      (case P (ComputeTarget w ''ac-aml-cluster'') of
         Inr c \<Rightarrow> [Workspace_update_image_build_compute w ''ac-aml-cluster'']
       | Inl e \<Rightarrow> [])"
  using assms
  by (simp add: hyperdrive_compute_cell_def py_defs split: sum.splits)

lemma drift_monitor_cell_calls:
  assumes "ws k = Some w" and "baseline_data_set k = Some b"
    and "target_data_set k = Some t" and "cluster_name k = Some n"
  shows "calls (snd (drift_monitor_cell P k)) =
    calls k @ [DataDriftDetector_create_from_datasets
      \<lparr>ddd_workspace = w, ddd_name = ''mslearn-diabates-drift'',
       ddd_baseline = b, ddd_target = t, ddd_compute_target = n,
       ddd_frequency = ''Week'', ddd_feature_list = [''Pregnancies'', ''Age'', ''BMI''],
       ddd_drift_threshold = 3 / 10, ddd_latency = 24\<rparr>]"
  using assms
  by (simp add: drift_monitor_cell_def py_defs split: sum.splits)


lemma batch_compute_cell_state:
  assumes "ws k = Some w"
  shows "snd (batch_compute_cell P k) =
    (case P (ComputeTarget w ''acaml-****'') of
       Inl e \<Rightarrow> k\<lparr>calls := calls k @ [ComputeTarget w ''acaml-****''],
                 stdout := stdout k @
                   (if except_ComputeTargetException e
                    then [''There is no existing cluster by that name.''] else []),
                 cluster_name := Some ''acaml-****''\<rparr>
     | Inr c \<Rightarrow>
        (case P (Workspace_update_image_build_compute w ''acaml-****'') of
           Inl e \<Rightarrow> k\<lparr>calls := calls k @ [ComputeTarget w ''acaml-****'',
                          Workspace_update_image_build_compute w ''acaml-****''],
                     stdout := stdout k @
                       (if except_ComputeTargetException e
                        then [''There is no existing cluster by that name.''] else []),
                     cluster_name := Some ''acaml-****'', inference_cluster := Some c\<rparr>
         | Inr _ \<Rightarrow> k\<lparr>calls := calls k @ [ComputeTarget w ''acaml-****'',
                          Workspace_update_image_build_compute w ''acaml-****''],
                     stdout := stdout k @ [''Found existing cluster and using it.''],
                     cluster_name := Some ''acaml-****'', inference_cluster := Some c\<rparr>))"
  using assms
  by (simp add: batch_compute_cell_def py_defs split: sum.splits)

lemma hyperdrive_compute_cell_state:
  assumes "ws k = Some w"
  shows "snd (hyperdrive_compute_cell P k) =
    (case P (ComputeTarget w ''ac-aml-cluster'') of
       Inl e \<Rightarrow> k\<lparr>calls := calls k @ [ComputeTarget w ''ac-aml-cluster''],
                 stdout := stdout k @
                   (if except_ComputeTargetException e
                    then [''There is no existing cluster by that name.''] else []),
                 cluster_name := Some ''ac-aml-cluster''\<rparr>
     | Inr c \<Rightarrow>
        (case P (Workspace_update_image_build_compute w ''ac-aml-cluster'') of
           Inl e \<Rightarrow> k\<lparr>calls := calls k @ [ComputeTarget w ''ac-aml-cluster'',
                          Workspace_update_image_build_compute w ''ac-aml-cluster''],
                     stdout := stdout k @
                       (if except_ComputeTargetException e
                        then [''There is no existing cluster by that name.''] else []),
                     cluster_name := Some ''ac-aml-cluster'', training_cluster := Some c\<rparr>
         | Inr _ \<Rightarrow> k\<lparr>calls := calls k @ [ComputeTarget w ''ac-aml-cluster'',
                          Workspace_update_image_build_compute w ''ac-aml-cluster''],
                     stdout := stdout k @ [''Found existing cluster and using it.''],
                     cluster_name := Some ''ac-aml-cluster'', training_cluster := Some c\<rparr>))"
  using assms
  by (simp add: hyperdrive_compute_cell_def py_defs split: sum.splits)



lemma batch_parallel_run_cell_all_calls:
  assumes "ws k = Some w" and "experiment_folder k = Some folder"
    and "batch_env k = Some env" and "inference_cluster k = Some cluster"
    and "batch_data_set k = Some d"
    and "P (Workspace_get_default_datastore w) = Inr ds"
    and "P (PipelineData \<lparr>pd_name = ''inferences'', pd_datastore = ds,
            pd_output_path_on_compute = ''diabetes/results''\<rparr>) = Inr out"
    and "P (ParallelRunConfig
            \<lparr>prc_source_directory = folder, prc_entry_script = ''batch_diabetes.py'',
             prc_mini_batch_size = ''5'', prc_error_threshold = 10,
             prc_output_action = ''append_row'', prc_environment = env,
             prc_compute_target = cluster, prc_node_count = 2\<rparr>) = Inr cfg"
    and "P (Dataset_as_named_input d ''diabetes_batch'') = Inr inp"
  shows "calls (snd (batch_parallel_run_cell P k)) =
    calls k @
    [Workspace_get_default_datastore w,
     PipelineData \<lparr>pd_name = ''inferences'', pd_datastore = ds,
       pd_output_path_on_compute = ''diabetes/results''\<rparr>,
     ParallelRunConfig
       \<lparr>prc_source_directory = folder, prc_entry_script = ''batch_diabetes.py'',
        prc_mini_batch_size = ''5'', prc_error_threshold = 10,
        prc_output_action = ''append_row'', prc_environment = env,
        prc_compute_target = cluster, prc_node_count = 2\<rparr>,
     Dataset_as_named_input d ''diabetes_batch'',
     ParallelRunStep
       \<lparr>prs_name = ''batch-score-diabetes'', prs_parallel_run_config = cfg,
        prs_inputs = [inp], prs_output = out, prs_arguments = [],
        prs_allow_reuse = True\<rparr>]"
  using assms
  by (simp add: batch_parallel_run_cell_def py_defs split: sum.splits)

section \<open>Lemmas on the web service script\<close>

lemma py_index_classnames:
  "py_index classnames p =
     (if p = 0 \<or> p = - 2 then Inr ''not-diabetic''
      else if p = 1 \<or> p = - 1 then Inr ''diabetic''
      else Inl (IndexError ''list index out of range''))"
proof -
  consider "p < - 2" | "p = - 2" | "p = - 1" | "p = 0" | "p = 1" | "1 < p" by linarith
  then show ?thesis
    by cases (simp_all add: py_index_def classnames_def Let_def)
qed

lemma classname_loop_in_bounds:
  "\<forall>p\<in>set ps. - 2 \<le> p \<and> p \<le> 1 \<Longrightarrow>
   classname_loop ps acc s =
     (Inr (acc @ map (\<lambda>p. if p = 0 \<or> p = - 2 then ''not-diabetic'' else ''diabetic'') ps), s)"
proof (induction ps arbitrary: acc)
  case Nil
  then show ?case by (simp add: py_return_def)
next
  case (Cons p ps)
  have "p = - 2 \<or> p = - 1 \<or> p = 0 \<or> p = 1" using Cons.prems by auto
  then have "py_index classnames p =
      Inr (if p = 0 \<or> p = - 2 then ''not-diabetic'' else ''diabetic'')"
    by (auto simp add: py_index_classnames)
  then show ?case using Cons by (simp add: py_bind_def py_lift_def)
qed

lemma classname_loop_out_of_bounds:
  "\<exists>p\<in>set ps. p < - 2 \<or> 1 < p \<Longrightarrow>
   classname_loop ps acc s = (Inl (IndexError ''list index out of range''), s)"
proof (induction ps arbitrary: acc)
  case Nil
  then show ?case by simp
next
  case (Cons p ps)
  show ?case
  proof (cases "p < - 2 \<or> 1 < p")
    case True
    then have "py_index classnames p = Inl (IndexError ''list index out of range'')"
      by (auto simp add: py_index_classnames)
    then show ?thesis by (simp add: py_bind_def py_lift_def)
  next
    case False
    then have "\<exists>q\<in>set ps. q < - 2 \<or> 1 < q" using Cons.prems by auto
    then have rest: "classname_loop ps acc' s = (Inl (IndexError ''list index out of range''), s)"
      for acc' by (rule Cons.IH)
    show ?thesis
      by (simp add: py_bind_def py_lift_def py_index_classnames rest)
  qed
qed

lemma score_diabetes_run_in_bounds:
  assumes "json_loads_data L raw_data = Inr rows" and "np_array_raises L rows = None"
    and "model s = Some m" and "predict_raises L m rows = None"
    and "\<forall>r\<in>set rows. - 2 \<le> predict_label L m r \<and> predict_label L m r \<le> 1"
  shows "fst (score_diabetes_run L raw_data s) =
    Inr (json_dumps L
      (map (\<lambda>r. if predict_label L m r = 0 \<or> predict_label L m r = - 2
                then ''not-diabetic'' else ''diabetic'') rows))"
proof -
  have inb: "\<forall>p\<in>set (map (predict_label L m) rows). - 2 \<le> p \<and> p \<le> 1"
    using assms(5) by simp
  show ?thesis
    using assms(1-4)
    by (simp add: score_diabetes_run_def np_array_def classifier_predict_def py_bind_def
        py_lift_def py_var_def extern_def py_print_def py_return_def
        classname_loop_in_bounds [OF inb] comp_def)
qed

lemma score_diabetes_run_out_of_bounds:
  assumes "json_loads_data L raw_data = Inr rows" and "np_array_raises L rows = None"
    and "model s = Some m" and "predict_raises L m rows = None"
    and "\<exists>r\<in>set rows. predict_label L m r < - 2 \<or> 1 < predict_label L m r"
  shows "fst (score_diabetes_run L raw_data s) = Inl (IndexError ''list index out of range'')"
proof -
  have out: "\<exists>p\<in>set (map (predict_label L m) rows). p < - 2 \<or> 1 < p"
    using assms(5) by simp
  show ?thesis
    using assms(1-4)
    by (simp add: score_diabetes_run_def np_array_def classifier_predict_def py_bind_def
        py_lift_def py_var_def extern_def py_print_def py_return_def
        classname_loop_out_of_bounds [OF out])
qed

section \<open>Lemmas on the data generation loop\<close>









section \<open>Facts about the concrete libraries\<close>

lemma demo_libs_read:
  "\<forall>f\<in>set [''in/1.csv'', ''in/2.csv''].
     np_genfromtxt demo_libs f = Inr (demo_data f) \<and>
     ndarray_reshape demo_libs (demo_data f) = Inr (demo_data f) \<and>
     model_predict demo_libs () (demo_data f) = Inr (demo_label f # [])"
  by (simp add: demo_libs_def demo_data_def demo_label_def)

lemma demo_faulty_libs_read:
  "\<forall>f\<in>set [''in/1.csv'', ''in/2.csv''].
     np_genfromtxt demo_faulty_libs f = Inr (demo_data f) \<and>
     ndarray_reshape demo_faulty_libs (demo_data f) = Inr (demo_data f) \<and>
     model_predict demo_faulty_libs () (demo_data f) = Inr (demo_label f # [])"
  by (simp add: demo_faulty_libs_def demo_data_def demo_label_def)

section \<open>The batch scoring script: results\<close>

text \<open>
  C3, as stated, fails: not every list of file paths gives a list of results. When a file of
  the mini-batch cannot be read, \<^verbatim>\<open>run\<close> raises, and the line of the file scored before it
  is lost with the rest.
\<close>

theorem run_raises_on_a_missing_file:
  "batch_diabetes_run demo_libs [''in/1.csv'', ''in/missing.csv''] demo_proc =
     (Inl (Exception ''not found''),
      demo_proc\<lparr>calls := [Call_genfromtxt ''in/1.csv'', Call_predict [2, 180],
                           Call_genfromtxt ''in/missing.csv'']\<rparr>)"
  by (simp add: batch_diabetes_run_def batch_score_file_def py_defs first_label_def
      demo_libs_def demo_proc_def)

text \<open>
  C3, amended. For every list of file paths, when the model is loaded and every file of the
  list is read, reshaped and scored without an exception, \<^verbatim>\<open>run\<close> returns a list of the
  same length and in the same order, whose i-th element is the base name of the i-th
  file, a colon and a space, and the first label the model predicts for the row read
  from that file; it has then made one read and one prediction call for each file, in
  order. When the files \<open>good\<close> are such and the next file \<open>f\<close> is not, \<^verbatim>\<open>run\<close> returns
  no list: it raises what the read, the reshaping or the prediction of \<open>f\<close> raised, or the
  \<^verbatim>\<open>IndexError\<close> of an empty prediction, having made no call after the one that failed.
\<close>

theorem run_returns_one_line_per_file:
  assumes "model s = Some m"
    and "\<forall>f\<in>set good.
           np_genfromtxt L f = Inr (array_of f) \<and>
           ndarray_reshape L (array_of f) = Inr (row f) \<and>
           model_predict L m (row f) = Inr (label f # others f)"
  shows "(\<exists>resultList.
            fst (batch_diabetes_run L good s) = Inr resultList \<and>
            length resultList = length good \<and>
            (\<forall>i<length good.
               resultList ! i =
                 os_path_basename L (good ! i) @ '': '' @ str_label L (label (good ! i)))) \<and>
         calls (snd (batch_diabetes_run L good s)) =
           calls s @ concat (map (\<lambda>f. [Call_genfromtxt f, Call_predict (row f)]) good) \<and>
         (np_genfromtxt L f = Inl e \<longrightarrow>
            batch_diabetes_run L (good @ f # rest) s =
              (Inl e,
               s\<lparr>calls := calls s @
                   concat (map (\<lambda>f. [Call_genfromtxt f, Call_predict (row f)]) good) @
                   [Call_genfromtxt f]\<rparr>)) \<and>
         (np_genfromtxt L f = Inr d \<and> ndarray_reshape L d = Inl e \<longrightarrow>
            batch_diabetes_run L (good @ f # rest) s =
              (Inl e,
               s\<lparr>calls := calls s @
                   concat (map (\<lambda>f. [Call_genfromtxt f, Call_predict (row f)]) good) @
                   [Call_genfromtxt f]\<rparr>)) \<and>
         (np_genfromtxt L f = Inr d \<and> ndarray_reshape L d = Inr r \<and>
          model_predict L m r = Inl e \<longrightarrow>
            batch_diabetes_run L (good @ f # rest) s =
              (Inl e,
               s\<lparr>calls := calls s @
                   concat (map (\<lambda>f. [Call_genfromtxt f, Call_predict (row f)]) good) @
                   [Call_genfromtxt f, Call_predict r]\<rparr>)) \<and>
         (np_genfromtxt L f = Inr d \<and> ndarray_reshape L d = Inr r \<and>
          model_predict L m r = Inr [] \<longrightarrow>
            batch_diabetes_run L (good @ f # rest) s =
              (Inl (IndexError ''index 0 is out of bounds for axis 0 with size 0''),
               s\<lparr>calls := calls s @
                   concat (map (\<lambda>f. [Call_genfromtxt f, Call_predict (row f)]) good) @
                   [Call_genfromtxt f, Call_predict r]\<rparr>))"
proof -
  let ?T = "concat (map (\<lambda>f. [Call_genfromtxt f, Call_predict (row f)]) good)"
  let ?s1 = "s\<lparr>calls := calls s @ ?T\<rparr>"
  have m1: "model ?s1 = Some m" using assms(1) by simp
  have ok: "batch_diabetes_run L good s =
      (Inr (map (\<lambda>f. os_path_basename L f @ '': '' @ str_label L (label f)) good), ?s1)"
    unfolding batch_diabetes_run_def
    using batch_loop_ok [of good L array_of row m label others s "[]"] assms
    by simp
  have lines: "\<exists>resultList.
      fst (batch_diabetes_run L good s) = Inr resultList \<and>
      length resultList = length good \<and>
      (\<forall>i<length good.
         resultList ! i =
           os_path_basename L (good ! i) @ '': '' @ str_label L (label (good ! i)))"
    by (simp add: ok)
  have trace: "calls (snd (batch_diabetes_run L good s)) = calls s @ ?T"
    by (simp add: ok)
  have read: "np_genfromtxt L f = Inl e \<longrightarrow>
      batch_diabetes_run L (good @ f # rest) s =
        (Inl e, s\<lparr>calls := calls s @ ?T @ [Call_genfromtxt f]\<rparr>)"
  proof
    assume h: "np_genfromtxt L f = Inl e"
    show "batch_diabetes_run L (good @ f # rest) s =
        (Inl e, s\<lparr>calls := calls s @ ?T @ [Call_genfromtxt f]\<rparr>)"
      using batch_diabetes_run_stops [OF assms batch_score_file_read_raises [OF h]]
      by simp
  qed
  have reshape: "np_genfromtxt L f = Inr d \<and> ndarray_reshape L d = Inl e \<longrightarrow>
      batch_diabetes_run L (good @ f # rest) s =
        (Inl e, s\<lparr>calls := calls s @ ?T @ [Call_genfromtxt f]\<rparr>)"
  proof
    assume h: "np_genfromtxt L f = Inr d \<and> ndarray_reshape L d = Inl e"
    show "batch_diabetes_run L (good @ f # rest) s =
        (Inl e, s\<lparr>calls := calls s @ ?T @ [Call_genfromtxt f]\<rparr>)"
      using batch_diabetes_run_stops
        [OF assms batch_score_file_reshape_raises [OF m1 conjunct1 [OF h] conjunct2 [OF h]]]
      by simp
  qed
  have predict: "np_genfromtxt L f = Inr d \<and> ndarray_reshape L d = Inr r \<and>
      model_predict L m r = Inl e \<longrightarrow>
      batch_diabetes_run L (good @ f # rest) s =
        (Inl e, s\<lparr>calls := calls s @ ?T @ [Call_genfromtxt f, Call_predict r]\<rparr>)"
  proof
    assume h: "np_genfromtxt L f = Inr d \<and> ndarray_reshape L d = Inr r \<and>
      model_predict L m r = Inl e"
    then have h1: "np_genfromtxt L f = Inr d" and h2: "ndarray_reshape L d = Inr r"
      and h3: "model_predict L m r = Inl e" by simp_all
    show "batch_diabetes_run L (good @ f # rest) s =
        (Inl e, s\<lparr>calls := calls s @ ?T @ [Call_genfromtxt f, Call_predict r]\<rparr>)"
      using batch_diabetes_run_stops
        [OF assms batch_score_file_predict_raises [OF m1 h1 h2 h3]]
      by simp
  qed
  have no_label: "np_genfromtxt L f = Inr d \<and> ndarray_reshape L d = Inr r \<and>
      model_predict L m r = Inr [] \<longrightarrow>
      batch_diabetes_run L (good @ f # rest) s =
        (Inl (IndexError ''index 0 is out of bounds for axis 0 with size 0''),
         s\<lparr>calls := calls s @ ?T @ [Call_genfromtxt f, Call_predict r]\<rparr>)"
  proof
    assume h: "np_genfromtxt L f = Inr d \<and> ndarray_reshape L d = Inr r \<and>
      model_predict L m r = Inr []"
    then have h1: "np_genfromtxt L f = Inr d" and h2: "ndarray_reshape L d = Inr r"
      and h3: "model_predict L m r = Inr []" by simp_all
    show "batch_diabetes_run L (good @ f # rest) s =
        (Inl (IndexError ''index 0 is out of bounds for axis 0 with size 0''),
         s\<lparr>calls := calls s @ ?T @ [Call_genfromtxt f, Call_predict r]\<rparr>)"
      using batch_diabetes_run_stops
        [OF assms batch_score_file_no_label [OF m1 h1 h2 h3]]
      by simp
  qed
  show ?thesis
    by (rule conjI [OF lines conjI [OF trace conjI [OF read conjI [OF reshape
          conjI [OF predict no_label]]]]])
qed

theorem run_returns_one_line_per_file_witness:
  "model demo_proc = Some () \<and>
   (\<exists>resultList.
      fst (batch_diabetes_run demo_faulty_libs [''in/1.csv'', ''in/2.csv''] demo_proc) =
        Inr resultList \<and>
      length resultList = 2 \<and>
      resultList ! 0 = ''1.csv: 1'' \<and> resultList ! 1 = ''2.csv: 0'') \<and>
   fst (batch_diabetes_run demo_faulty_libs
          [''in/1.csv'', ''in/2.csv'', ''in/missing.csv'', ''in/1.csv''] demo_proc) =
     Inl (Exception ''not found'') \<and>
   fst (batch_diabetes_run demo_faulty_libs
          [''in/1.csv'', ''in/2.csv'', ''in/ragged.csv'', ''in/1.csv''] demo_proc) =
     Inl (Exception ''cannot reshape'') \<and>
   fst (batch_diabetes_run demo_faulty_libs
          [''in/1.csv'', ''in/2.csv'', ''in/empty.csv'', ''in/1.csv''] demo_proc) =
     Inl (Exception ''bad input shape'') \<and>
   fst (batch_diabetes_run demo_faulty_libs
          [''in/1.csv'', ''in/2.csv'', ''in/nothing.csv'', ''in/1.csv''] demo_proc) =
     Inl (IndexError ''index 0 is out of bounds for axis 0 with size 0'')"
proof -
  have m: "model demo_proc = Some ()" by (simp add: demo_proc_def)
  note run = run_returns_one_line_per_file [OF m demo_faulty_libs_read]
  obtain resultList where r:
    "fst (batch_diabetes_run demo_faulty_libs [''in/1.csv'', ''in/2.csv''] demo_proc) =
       Inr resultList"
    "length resultList = length [''in/1.csv'', ''in/2.csv'']"
    "\<forall>i<length [''in/1.csv'', ''in/2.csv''].
       resultList ! i =
         os_path_basename demo_faulty_libs ([''in/1.csv'', ''in/2.csv''] ! i) @ '': '' @
         str_label demo_faulty_libs (demo_label ([''in/1.csv'', ''in/2.csv''] ! i))"
    using run by blast
  have "resultList ! 0 = ''1.csv: 1''"
    using r(3) by (simp add: demo_faulty_libs_def demo_label_def posix_basename_def)
  moreover have "resultList ! 1 = ''2.csv: 0''"
    using r(3) by (simp add: demo_faulty_libs_def demo_label_def posix_basename_def)
  ultimately have lines: "\<exists>resultList.
      fst (batch_diabetes_run demo_faulty_libs [''in/1.csv'', ''in/2.csv''] demo_proc) =
        Inr resultList \<and>
      length resultList = 2 \<and>
      resultList ! 0 = ''1.csv: 1'' \<and> resultList ! 1 = ''2.csv: 0''"
    using r(1) r(2) by auto
  have missing: "np_genfromtxt demo_faulty_libs ''in/missing.csv'' = Inl (Exception ''not found'')"
    by (simp add: demo_faulty_libs_def)
  have ragged: "np_genfromtxt demo_faulty_libs ''in/ragged.csv'' = Inr [7] \<and>
      ndarray_reshape demo_faulty_libs [7] = Inl (Exception ''cannot reshape'')"
    by (simp add: demo_faulty_libs_def)
  have empty: "np_genfromtxt demo_faulty_libs ''in/empty.csv'' = Inr [] \<and>
      ndarray_reshape demo_faulty_libs [] = Inr [] \<and>
      model_predict demo_faulty_libs () [] = Inl (Exception ''bad input shape'')"
    by (simp add: demo_faulty_libs_def)
  have no_label: "np_genfromtxt demo_faulty_libs ''in/nothing.csv'' = Inr [9] \<and>
      ndarray_reshape demo_faulty_libs [9] = Inr [9] \<and>
      model_predict demo_faulty_libs () [9] = Inr []"
    by (simp add: demo_faulty_libs_def)
  have a: "fst (batch_diabetes_run demo_faulty_libs
          [''in/1.csv'', ''in/2.csv'', ''in/missing.csv'', ''in/1.csv''] demo_proc) =
     Inl (Exception ''not found'')"
    using run [of "''in/missing.csv''" "Exception ''not found''" "[''in/1.csv'']"] missing
    by simp
  have b: "fst (batch_diabetes_run demo_faulty_libs
          [''in/1.csv'', ''in/2.csv'', ''in/ragged.csv'', ''in/1.csv''] demo_proc) =
     Inl (Exception ''cannot reshape'')"
    using run [of "''in/ragged.csv''" "Exception ''cannot reshape''" "[''in/1.csv'']" "[7]"]
      ragged
    by simp
  have c: "fst (batch_diabetes_run demo_faulty_libs
          [''in/1.csv'', ''in/2.csv'', ''in/empty.csv'', ''in/1.csv''] demo_proc) =
     Inl (Exception ''bad input shape'')"
    using run [of "''in/empty.csv''" "Exception ''bad input shape''" "[''in/1.csv'']" "[]" "[]"]
      empty
    by simp
  have d: "fst (batch_diabetes_run demo_faulty_libs
          [''in/1.csv'', ''in/2.csv'', ''in/nothing.csv'', ''in/1.csv''] demo_proc) =
     Inl (IndexError ''index 0 is out of bounds for axis 0 with size 0'')"
    using run [of "''in/nothing.csv''" "Exception []" "[''in/1.csv'']" "[9]" "[9]"] no_label
    by simp
  from m lines a b c d show ?thesis by (intro conjI)
qed

section \<open>The web service script: results\<close>

text \<open>
  C4, as stated, fails: Python indexes a list from the end with a negative integer, so
  \<^verbatim>\<open>classnames[-1]\<close> is in bounds; for the prediction \<open>- 1\<close> the function \<^verbatim>\<open>run\<close> returns
  the class name \<^verbatim>\<open>diabetic\<close> and does not raise. And with a model of binary labels \<^verbatim>\<open>run\<close>
  still raises on a request that does not parse.
\<close>

theorem negative_prediction_is_in_bounds:
  "json_loads_data demo_score_libs ''other'' = Inr [''other''] \<and>
   classifier_predict demo_score_libs () [''other''] = Inr [- 1] \<and>
   py_index classnames (- 1) = Inr ''diabetic'' \<and>
   fst (score_diabetes_run demo_score_libs ''other'' demo_score_proc) =
     Inr (json_dumps demo_score_libs [''diabetic'']) \<and>
   fst (score_diabetes_run demo_score_libs [] demo_score_proc) =
     Inl (Exception ''JSONDecodeError'')"
  by (simp add: score_diabetes_run_def np_array_def classifier_predict_def py_defs
      py_index_def classnames_def demo_score_libs_def demo_score_proc_def)

text \<open>
  C4, amended. For a request that parses to rows, with the model loaded and neither
  \<^verbatim>\<open>np.array\<close> nor \<^verbatim>\<open>predict\<close> raising, \<^verbatim>\<open>run\<close> maps each prediction through the list of the
  two class names and returns the JSON encoding of a list with one class name per input
  row. The indexing \<^verbatim>\<open>classnames[prediction]\<close> is in bounds precisely for the predictions
  from \<open>- 2\<close> to \<open>1\<close>: if every prediction is in that range, the class name of a row is
  \<^verbatim>\<open>not-diabetic\<close> for \<open>0\<close> and \<open>- 2\<close>, \<^verbatim>\<open>diabetic\<close> for \<open>1\<close> and \<open>- 1\<close>; if some prediction is
  outside it, \<^verbatim>\<open>run\<close> raises \<^verbatim>\<open>IndexError\<close>. In particular, for binary labels \<open>0\<close> and \<open>1\<close>
  the indexing does not raise and maps each label through the list.
\<close>

theorem score_run_maps_predictions_to_classnames:
  assumes "json_loads_data L raw_data = Inr rows" and "np_array_raises L rows = None"
    and "model s = Some m" and "predict_raises L m rows = None"
  shows "((\<forall>r\<in>set rows. - 2 \<le> predict_label L m r \<and> predict_label L m r \<le> 1) \<longrightarrow>
            (\<exists>predicted_classes.
               fst (score_diabetes_run L raw_data s) = Inr (json_dumps L predicted_classes) \<and>
               length predicted_classes = length rows \<and>
               (\<forall>i<length rows. predicted_classes ! i =
                  (if predict_label L m (rows ! i) = 0 \<or> predict_label L m (rows ! i) = - 2
                   then ''not-diabetic'' else ''diabetic'')))) \<and>
         ((\<exists>r\<in>set rows. predict_label L m r < - 2 \<or> 1 < predict_label L m r) \<longrightarrow>
            fst (score_diabetes_run L raw_data s) = Inl (IndexError ''list index out of range'')) \<and>
         ((\<forall>r\<in>set rows. predict_label L m r = 0 \<or> predict_label L m r = 1) \<longrightarrow>
            fst (score_diabetes_run L raw_data s) =
              Inr (json_dumps L (map (\<lambda>r. classnames ! nat (predict_label L m r)) rows)))"
proof (intro conjI impI)
  assume inb: "\<forall>r\<in>set rows. - 2 \<le> predict_label L m r \<and> predict_label L m r \<le> 1"
  have "fst (score_diabetes_run L raw_data s) =
      Inr (json_dumps L
        (map (\<lambda>r. if predict_label L m r = 0 \<or> predict_label L m r = - 2
                  then ''not-diabetic'' else ''diabetic'') rows))"
    by (rule score_diabetes_run_in_bounds [OF assms inb])
  then show "\<exists>predicted_classes.
      fst (score_diabetes_run L raw_data s) = Inr (json_dumps L predicted_classes) \<and>
      length predicted_classes = length rows \<and>
      (\<forall>i<length rows. predicted_classes ! i =
         (if predict_label L m (rows ! i) = 0 \<or> predict_label L m (rows ! i) = - 2
          then ''not-diabetic'' else ''diabetic''))"
    by (intro exI [of _ "map (\<lambda>r. if predict_label L m r = 0 \<or> predict_label L m r = - 2
                  then ''not-diabetic'' else ''diabetic'') rows"])
       simp
next
  assume "\<exists>r\<in>set rows. predict_label L m r < - 2 \<or> 1 < predict_label L m r"
  then show "fst (score_diabetes_run L raw_data s) = Inl (IndexError ''list index out of range'')"
    by (rule score_diabetes_run_out_of_bounds [OF assms])
next
  assume bin: "\<forall>r\<in>set rows. predict_label L m r = 0 \<or> predict_label L m r = 1"
  then have inb: "\<forall>r\<in>set rows. - 2 \<le> predict_label L m r \<and> predict_label L m r \<le> 1"
    by auto
  have same: "map (\<lambda>r. if predict_label L m r = 0 \<or> predict_label L m r = - 2
                  then ''not-diabetic'' else ''diabetic'') rows =
      map (\<lambda>r. classnames ! nat (predict_label L m r)) rows"
    using bin by (auto simp add: classnames_def)
  show "fst (score_diabetes_run L raw_data s) =
      Inr (json_dumps L (map (\<lambda>r. classnames ! nat (predict_label L m r)) rows))"
    using score_diabetes_run_in_bounds [OF assms inb] by (simp add: same)
qed

theorem score_run_maps_predictions_to_classnames_witness:
  "json_loads_data demo_score_libs ''healthy;ill'' = Inr [''healthy'', ''ill''] \<and>
   fst (score_diabetes_run demo_score_libs ''healthy;ill'' demo_score_proc) =
     Inr (json_dumps demo_score_libs [''not-diabetic'', ''diabetic'']) \<and>
   json_loads_data demo_score_libs ''ill;severe'' = Inr [''ill'', ''severe''] \<and>
   fst (score_diabetes_run demo_score_libs ''ill;severe'' demo_score_proc) =
     Inl (IndexError ''list index out of range'')"
proof -
  have a: "json_loads_data demo_score_libs ''healthy;ill'' = Inr [''healthy'', ''ill'']"
    by (simp add: demo_score_libs_def)
  have b: "np_array_raises demo_score_libs rows = None" for rows
    by (simp add: demo_score_libs_def)
  have c: "model demo_score_proc = Some ()"
    by (simp add: demo_score_proc_def)
  have d: "predict_raises demo_score_libs () rows = None" for rows
    by (simp add: demo_score_libs_def)
  have a': "json_loads_data demo_score_libs ''ill;severe'' = Inr [''ill'', ''severe'']"
    by (simp add: demo_score_libs_def)
  have labels: "predict_label demo_score_libs () ''healthy'' = 0"
    "predict_label demo_score_libs () ''ill'' = 1"
    "predict_label demo_score_libs () ''severe'' = 2"
    by (simp_all add: demo_score_libs_def)
  have binary: "fst (score_diabetes_run demo_score_libs ''healthy;ill'' demo_score_proc) =
      Inr (json_dumps demo_score_libs [''not-diabetic'', ''diabetic''])"
    using score_run_maps_predictions_to_classnames [OF a b c d]
    by (simp add: classnames_def labels)
  have outside: "fst (score_diabetes_run demo_score_libs ''ill;severe'' demo_score_proc) =
      Inl (IndexError ''list index out of range'')"
    using score_run_maps_predictions_to_classnames [OF a' b c d]
    by (simp add: labels)
  show ?thesis using a binary a' outside by (intro conjI)
qed

section \<open>The data generation loop: results\<close>




section \<open>Failure handling in the notebooks: results\<close>

text \<open>
  C1, as stated, fails. An error of \<^verbatim>\<open>Dataset.register\<close>, which is not the cluster check, is
  caught: on a platform where registration fails, the statement in the telemetry notebook
  prints the message and completes. And the statement around the cluster check is not
  repeated verbatim: for the same cluster name and the same variable, the hyperparameter
  tuning notebook updates the workspace and the data drift notebook does not.
\<close>

theorem registration_error_is_caught:
  "telemetry_register_try demo_platform_failing demo_kernel =
     (Inr (),
      demo_kernel\<lparr>calls :=
          [Dataset_register ''data_set''
             \<lparr>reg_workspace = ''ws'', reg_name = ''diabetes dataset'',
              reg_description = ''diabetes data'', reg_tags = Some [(''format'', ''CSV'')],
              reg_create_new_version = True\<rparr>],
        stdout := [''registration failed'']\<rparr>) \<and>
   calls (snd (hyperdrive_compute_cell demo_platform_ok demo_kernel)) =
     [ComputeTarget ''ws'' ''ac-aml-cluster'',
      Workspace_update_image_build_compute ''ws'' ''ac-aml-cluster''] \<and>
   calls (snd (drift_compute_cell demo_platform_ok demo_kernel)) =
     [ComputeTarget ''ws'' ''ac-aml-cluster'']"
  by (simp add: telemetry_register_try_def hyperdrive_compute_cell_def drift_compute_cell_def
      py_defs demo_platform_failing_def demo_platform_ok_def demo_kernel_def)

text \<open>
  C1, amended. In a kernel where the workspace and the dataset are bound: the cell that
  checks that the compute cluster exists, in the batch inferencing, the hyperparameter
  tuning and the data drift notebook, has a \<^verbatim>\<open>try/except\<close> that catches
  \<^verbatim>\<open>ComputeTargetException\<close> only; the cell completes when a call of the body raises it,
  and raises what the call raised when that is of another class. The body is not the same
  in the three: in the first two it also updates the workspace, in the third it does not.
  And the registration of a dataset, in the batch inferencing, the telemetry and the
  hyperparameter tuning notebook, has a \<^verbatim>\<open>try/except\<close> that catches every \<^verbatim>\<open>Exception\<close>: the
  statement completes whatever \<^verbatim>\<open>Exception\<close> the registration raised.
\<close>

theorem try_except_statements:
  assumes "ws k = Some w"
    and "batch_data_set k = Some d1" and "data_set k = Some d2" and "tab_data_set k = Some d3"
  shows "fst (batch_compute_cell P k) =
           (case P (ComputeTarget w ''acaml-****'') of
              Inl e \<Rightarrow> if except_ComputeTargetException e then Inr () else Inl e
            | Inr c \<Rightarrow>
               (case P (Workspace_update_image_build_compute w ''acaml-****'') of
                  Inl e \<Rightarrow> if except_ComputeTargetException e then Inr () else Inl e
                | Inr _ \<Rightarrow> Inr ())) \<and>
         fst (hyperdrive_compute_cell P k) =
           (case P (ComputeTarget w ''ac-aml-cluster'') of
              Inl e \<Rightarrow> if except_ComputeTargetException e then Inr () else Inl e
            | Inr c \<Rightarrow>
               (case P (Workspace_update_image_build_compute w ''ac-aml-cluster'') of
                  Inl e \<Rightarrow> if except_ComputeTargetException e then Inr () else Inl e
                | Inr _ \<Rightarrow> Inr ())) \<and>
         fst (drift_compute_cell P k) =
           (case P (ComputeTarget w ''ac-aml-cluster'') of
              Inl e \<Rightarrow> if except_ComputeTargetException e then Inr () else Inl e
            | Inr c \<Rightarrow> Inr ()) \<and>
         fst (batch_register_try P k) =
           (case P (Dataset_register d1
                      \<lparr>reg_workspace = w, reg_name = ''batch-data'',
                       reg_description = ''batch data'', reg_tags = None,
                       reg_create_new_version = True\<rparr>) of
              Inl e \<Rightarrow> if except_Exception e then Inr () else Inl e
            | Inr r \<Rightarrow> Inr ()) \<and>
         fst (telemetry_register_try P k) =
           (case P (Dataset_register d2
                      \<lparr>reg_workspace = w, reg_name = ''diabetes dataset'',
                       reg_description = ''diabetes data'',
                       reg_tags = Some [(''format'', ''CSV'')],
                       reg_create_new_version = True\<rparr>) of
              Inl e \<Rightarrow> if except_Exception e then Inr () else Inl e
            | Inr r \<Rightarrow> Inr ()) \<and>
         fst (hyperdrive_register_try P k) =
           (case P (Dataset_register d3
                      \<lparr>reg_workspace = w, reg_name = ''diabetes dataset'',
                       reg_description = ''diabetes data'',
                       reg_tags = Some [(''format'', ''CSV'')],
                       reg_create_new_version = True\<rparr>) of
              Inl e \<Rightarrow> if except_Exception e then Inr () else Inl e
            | Inr r \<Rightarrow> Inr ())"
  by (intro conjI)
     (rule batch_compute_cell_outcome [OF assms(1)]
           hyperdrive_compute_cell_outcome [OF assms(1)]
           drift_compute_cell_outcome [OF assms(1)]
           batch_register_try_outcome [OF assms(1) assms(2)]
           telemetry_register_try_outcome [OF assms(1) assms(3)]
           hyperdrive_register_try_outcome [OF assms(1) assms(4)])+

theorem try_except_statements_witness:
  "ws demo_kernel = Some ''ws'' \<and>
   demo_platform_failing (ComputeTarget ''ws'' ''ac-aml-cluster'') =
     Inl (ComputeTargetException ''ComputeTargetNotFound'') \<and>
   fst (batch_compute_cell demo_platform_failing demo_kernel) = Inr () \<and>
   fst (hyperdrive_compute_cell demo_platform_failing demo_kernel) = Inr () \<and>
   fst (drift_compute_cell demo_platform_failing demo_kernel) = Inr () \<and>
   fst (batch_register_try demo_platform_failing demo_kernel) = Inr () \<and>
   fst (telemetry_register_try demo_platform_failing demo_kernel) = Inr () \<and>
   fst (hyperdrive_register_try demo_platform_failing demo_kernel) = Inr ()"
proof -
  have a: "ws demo_kernel = Some ''ws''" by (simp add: demo_kernel_def)
  have b: "batch_data_set demo_kernel = Some ''batch_data_set''" by (simp add: demo_kernel_def)
  have c: "data_set demo_kernel = Some ''data_set''" by (simp add: demo_kernel_def)
  have d: "tab_data_set demo_kernel = Some ''tab_data_set''" by (simp add: demo_kernel_def)
  show ?thesis
    using try_except_statements [OF a b c d, of demo_platform_failing] a
    by (simp add: demo_platform_failing_def)
qed

section \<open>Assigning the compute target: results\<close>

text \<open>
  C2, as stated, fails: in the batch inferencing notebook the cell that assigns the compute
  target, when the cluster is found, goes on to call
  \<^verbatim>\<open>ws.update(image_build_compute=cluster_name)\<close>, which is not a lookup; and besides the
  variable that holds the cluster it binds \<^verbatim>\<open>cluster_name\<close> and prints a line.
\<close>

theorem batch_compute_cell_updates_workspace:
  "batch_compute_cell demo_platform_ok demo_kernel =
     (Inr (),
      demo_kernel\<lparr>calls := [ComputeTarget ''ws'' ''acaml-****'',
                             Workspace_update_image_build_compute ''ws'' ''acaml-****''],
        stdout := [''Found existing cluster and using it.''],
        cluster_name := Some ''acaml-****'', inference_cluster := Some ''acaml-****''\<rparr>) \<and>
   calls (snd (batch_compute_cell demo_platform_ok demo_kernel)) =
     [ComputeTarget ''ws'' ''acaml-****'',
      Workspace_update_image_build_compute ''ws'' ''acaml-****''] \<and>
   \<not> list_all is_lookup (calls (snd (batch_compute_cell demo_platform_ok demo_kernel)))"
  by (simp add: batch_compute_cell_def py_defs demo_platform_ok_def demo_kernel_def)

text \<open>
  C2, amended. When assigning the compute target, every notebook looks an existing cluster
  up by its name. In the data drift notebook the cell makes no other call. In the batch
  inferencing and hyperparameter tuning notebooks the cell, when the lookup succeeds, also
  updates the workspace's \<^verbatim>\<open>image_build_compute\<close> to the cluster name; when the lookup
  raises, it makes no further call. In all three the cell leaves the kernel as it was but
  for the calls made, the line printed, the variable \<^verbatim>\<open>cluster_name\<close> and, when the lookup
  succeeds, the variable that holds the cluster.
\<close>

theorem compute_cells_calls:
  assumes "ws k = Some w"
  shows "snd (drift_compute_cell P k) =
           (case P (ComputeTarget w ''ac-aml-cluster'') of
              Inr c \<Rightarrow> k\<lparr>calls := calls k @ [ComputeTarget w ''ac-aml-cluster''],
                        stdout := stdout k @ [''Found existing cluster, use it.''],
                        cluster_name := Some ''ac-aml-cluster'', training_cluster := Some c\<rparr>
            | Inl e \<Rightarrow> k\<lparr>calls := calls k @ [ComputeTarget w ''ac-aml-cluster''],
                        stdout := stdout k @
                          (if except_ComputeTargetException e
                           then [''There is no existing cluster by that name.''] else []),
                        cluster_name := Some ''ac-aml-cluster''\<rparr>) \<and>
         calls (snd (batch_compute_cell P k)) =
           calls k @ ComputeTarget w ''acaml-****'' #
             (case P (ComputeTarget w ''acaml-****'') of
                Inr c \<Rightarrow> [Workspace_update_image_build_compute w ''acaml-****'']
              | Inl e \<Rightarrow> []) \<and>
         calls (snd (hyperdrive_compute_cell P k)) =
           calls k @ ComputeTarget w ''ac-aml-cluster'' #
             (case P (ComputeTarget w ''ac-aml-cluster'') of
                Inr c \<Rightarrow> [Workspace_update_image_build_compute w ''ac-aml-cluster'']
              | Inl e \<Rightarrow> []) \<and>
         snd (batch_compute_cell P k) =
           (case P (ComputeTarget w ''acaml-****'') of
              Inl e \<Rightarrow> k\<lparr>calls := calls k @ [ComputeTarget w ''acaml-****''],
                        stdout := stdout k @
                          (if except_ComputeTargetException e
                           then [''There is no existing cluster by that name.''] else []),
                        cluster_name := Some ''acaml-****''\<rparr>
            | Inr c \<Rightarrow>
               (case P (Workspace_update_image_build_compute w ''acaml-****'') of
                  Inl e \<Rightarrow> k\<lparr>calls := calls k @ [ComputeTarget w ''acaml-****'',
                                 Workspace_update_image_build_compute w ''acaml-****''],
                            stdout := stdout k @
                              (if except_ComputeTargetException e
                               then [''There is no existing cluster by that name.''] else []),
                            cluster_name := Some ''acaml-****'',
                            inference_cluster := Some c\<rparr>
                | Inr _ \<Rightarrow> k\<lparr>calls := calls k @ [ComputeTarget w ''acaml-****'',
                                 Workspace_update_image_build_compute w ''acaml-****''],
                            stdout := stdout k @ [''Found existing cluster and using it.''],
                            cluster_name := Some ''acaml-****'',
                            inference_cluster := Some c\<rparr>)) \<and>
         snd (hyperdrive_compute_cell P k) =
           (case P (ComputeTarget w ''ac-aml-cluster'') of
              Inl e \<Rightarrow> k\<lparr>calls := calls k @ [ComputeTarget w ''ac-aml-cluster''],
                        stdout := stdout k @
                          (if except_ComputeTargetException e
                           then [''There is no existing cluster by that name.''] else []),
                        cluster_name := Some ''ac-aml-cluster''\<rparr>
            | Inr c \<Rightarrow>
               (case P (Workspace_update_image_build_compute w ''ac-aml-cluster'') of
                  Inl e \<Rightarrow> k\<lparr>calls := calls k @ [ComputeTarget w ''ac-aml-cluster'',
                                 Workspace_update_image_build_compute w ''ac-aml-cluster''],
                            stdout := stdout k @
                              (if except_ComputeTargetException e
                               then [''There is no existing cluster by that name.''] else []),
                            cluster_name := Some ''ac-aml-cluster'',
                            training_cluster := Some c\<rparr>
                | Inr _ \<Rightarrow> k\<lparr>calls := calls k @ [ComputeTarget w ''ac-aml-cluster'',
                                 Workspace_update_image_build_compute w ''ac-aml-cluster''],
                            stdout := stdout k @ [''Found existing cluster and using it.''],
                            cluster_name := Some ''ac-aml-cluster'',
                            training_cluster := Some c\<rparr>))"
  by (rule conjI [OF drift_compute_cell_state [OF assms]
        conjI [OF batch_compute_cell_calls [OF assms]
        conjI [OF hyperdrive_compute_cell_calls [OF assms]
        conjI [OF batch_compute_cell_state [OF assms]
          hyperdrive_compute_cell_state [OF assms]]]]])

theorem compute_cells_calls_witness:
  "ws demo_kernel = Some ''ws'' \<and>
   snd (drift_compute_cell demo_platform_ok demo_kernel) =
     demo_kernel\<lparr>calls := [ComputeTarget ''ws'' ''ac-aml-cluster''],
       stdout := [''Found existing cluster, use it.''],
       cluster_name := Some ''ac-aml-cluster'', training_cluster := Some ''ac-aml-cluster''\<rparr> \<and>
   calls (snd (batch_compute_cell demo_platform_failing demo_kernel)) =
     [ComputeTarget ''ws'' ''acaml-****''] \<and>
   calls (snd (hyperdrive_compute_cell demo_platform_ok demo_kernel)) =
     [ComputeTarget ''ws'' ''ac-aml-cluster'',
      Workspace_update_image_build_compute ''ws'' ''ac-aml-cluster''] \<and>
   snd (batch_compute_cell demo_platform_failing demo_kernel) =
     demo_kernel\<lparr>calls := [ComputeTarget ''ws'' ''acaml-****''],
       stdout := [''There is no existing cluster by that name.''],
       cluster_name := Some ''acaml-****''\<rparr> \<and>
   snd (hyperdrive_compute_cell demo_platform_ok demo_kernel) =
     demo_kernel\<lparr>calls := [ComputeTarget ''ws'' ''ac-aml-cluster'',
         Workspace_update_image_build_compute ''ws'' ''ac-aml-cluster''],
       stdout := [''Found existing cluster and using it.''],
       cluster_name := Some ''ac-aml-cluster'', training_cluster := Some ''ac-aml-cluster''\<rparr>"
proof -
  have a: "ws demo_kernel = Some ''ws''" by (simp add: demo_kernel_def)
  have ok: "demo_platform_ok (ComputeTarget ''ws'' ''ac-aml-cluster'') = Inr ''ac-aml-cluster''"
    "demo_platform_ok (Workspace_update_image_build_compute ''ws'' ''ac-aml-cluster'') =
       Inr ''object''"
    by (simp_all add: demo_platform_ok_def)
  have failing: "demo_platform_failing (ComputeTarget ''ws'' ''acaml-****'') =
      Inl (ComputeTargetException ''ComputeTargetNotFound'')"
    by (simp add: demo_platform_failing_def)
  have empty: "calls demo_kernel = []" "stdout demo_kernel = []"
    by (simp_all add: demo_kernel_def)
  show ?thesis
    using compute_cells_calls [OF a, of demo_platform_ok]
      compute_cells_calls [OF a, of demo_platform_failing] a
    by (simp add: ok failing empty)
qed

section \<open>Library calls of the entry script and of the drift monitor: results\<close>

text \<open>
  C5, as stated, fails: \<^verbatim>\<open>run\<close> calls \<^verbatim>\<open>model.predict\<close> once for each file of the mini-batch,
  not once for the mini-batch; for two files it makes two prediction calls.
\<close>

theorem run_predicts_once_per_file:
  "predict_calls
     (calls (snd (batch_diabetes_run demo_libs [''in/1.csv'', ''in/2.csv''] demo_proc))) = 2"
  by (simp add: batch_diabetes_run_def batch_score_file_def py_defs first_label_def
      demo_libs_def demo_proc_def)

text \<open>
  C5, amended. \<^verbatim>\<open>init\<close> asks the SDK for the path of the model and then makes exactly one
  model-load call; \<^verbatim>\<open>run\<close>, when nothing raises, makes exactly one prediction call for each
  file of its mini-batch; and the cell that creates the drift monitor makes exactly one
  configuration call.
\<close>

theorem entry_script_and_monitor_calls:
  assumes "Model_get_model_path L ''diabetes_model'' = Inr path"
    and "model s = Some m"
    and "\<forall>f\<in>set mini_batch.
           np_genfromtxt L f = Inr (array_of f) \<and>
           ndarray_reshape L (array_of f) = Inr (row f) \<and>
           model_predict L m (row f) = Inr (label f # others f)"
    and "ws k = Some w" and "baseline_data_set k = Some b"
    and "target_data_set k = Some t" and "cluster_name k = Some n"
  shows "calls (snd (batch_diabetes_init L s0)) =
           calls s0 @ [Call_get_model_path ''diabetes_model'', Call_joblib_load path] \<and>
         load_calls (calls (snd (batch_diabetes_init L s0))) = load_calls (calls s0) + 1 \<and>
         predict_calls (calls (snd (batch_diabetes_run L mini_batch s))) =
           predict_calls (calls s) + length mini_batch \<and>
         length (filter is_drift_configuration (calls (snd (drift_monitor_cell P k)))) =
           length (filter is_drift_configuration (calls k)) + 1"
proof (intro conjI)
  show init: "calls (snd (batch_diabetes_init L s0)) =
      calls s0 @ [Call_get_model_path ''diabetes_model'', Call_joblib_load path]"
    by (rule batch_diabetes_init_calls [OF assms(1)])
  show "load_calls (calls (snd (batch_diabetes_init L s0))) = load_calls (calls s0) + 1"
    by (simp add: init load_calls_append)
  show "predict_calls (calls (snd (batch_diabetes_run L mini_batch s))) =
      predict_calls (calls s) + length mini_batch"
    by (simp add: batch_diabetes_run_calls [OF assms(2) assms(3)] predict_calls_append
        predict_calls_per_file)
  show "length (filter is_drift_configuration (calls (snd (drift_monitor_cell P k)))) =
      length (filter is_drift_configuration (calls k)) + 1"
    by (simp add: drift_monitor_cell_calls [OF assms(4) assms(5) assms(6) assms(7)])
qed

theorem entry_script_and_monitor_calls_witness:
  "model demo_proc = Some () \<and>
   calls (snd (batch_diabetes_init demo_libs demo_proc)) =
     [Call_get_model_path ''diabetes_model'',
      Call_joblib_load ''azureml-models/diabetes_model''] \<and>
   predict_calls
     (calls (snd (batch_diabetes_run demo_libs [''in/1.csv'', ''in/2.csv''] demo_proc))) =
     length [''in/1.csv'', ''in/2.csv''] \<and>
   length (filter is_drift_configuration
     (calls (snd (drift_monitor_cell demo_platform_ok
        (demo_kernel\<lparr>cluster_name := Some ''ac-aml-cluster''\<rparr>))))) = 1"
proof -
  have p: "Model_get_model_path demo_libs ''diabetes_model'' = Inr ''azureml-models/diabetes_model''"
    by (simp add: demo_libs_def)
  have m: "model demo_proc = Some ()" by (simp add: demo_proc_def)
  have k: "ws (demo_kernel\<lparr>cluster_name := Some ''ac-aml-cluster''\<rparr>) = Some ''ws''"
    "baseline_data_set (demo_kernel\<lparr>cluster_name := Some ''ac-aml-cluster''\<rparr>) =
       Some ''baseline_data_set''"
    "target_data_set (demo_kernel\<lparr>cluster_name := Some ''ac-aml-cluster''\<rparr>) =
       Some ''target_data_set''"
    "cluster_name (demo_kernel\<lparr>cluster_name := Some ''ac-aml-cluster''\<rparr>) =
       Some ''ac-aml-cluster''"
    by (simp_all add: demo_kernel_def)
  have empty: "calls demo_proc = []" "calls demo_kernel = []"
    by (simp_all add: demo_proc_def demo_kernel_def)
  show ?thesis
    using entry_script_and_monitor_calls
      [OF p m demo_libs_read k, of demo_proc demo_platform_ok] m
    by (simp add: empty)
qed

section \<open>The drift monitor: results\<close>




end
